theory Spec2Isabelle
  imports Main
begin

section \<open>Buyer Request Workflow: the data model of main.py\<close>

text \<open>
  The program is a FastAPI service over an SQLite database. The model is sequential: one
  handler runs at a time against a value of type \<open>db\<close>, the six tables of \<open>init_db\<close>
  as lists of rows in insertion order. Every effect is explicit:
  \<^item> an \<open>INSERT\<close> into a table with a \<open>PRIMARY KEY\<close> fails with \<open>IntegrityError\<close> when
    the key is already present, as does a NULL in a \<open>NOT NULL\<close> column;
  \<^item> \<open>datetime.utcnow()\<close> is an input: a time is an \<open>int\<close> (microseconds), the
    resolution of Python's \<open>datetime\<close>, whose \<open>isoformat\<close>/\<open>fromisoformat\<close> round trip
    is exact;
  \<^item> \<open>secrets.token_hex\<close> and \<open>secrets.token_urlsafe\<close> are inputs as well: the
    string that the call returned;
  \<^item> \<open>raise HTTPException\<close> is the value \<open>Inl (HTTPException status detail)\<close>;
  \<^item> \<open>json.dumps(metadata)\<close> is kept as the structured value it serialises;
  \<^item> a request body is a value of its pydantic model: a body that does not parse is
    answered by the framework before any handler runs, and is no input here.
\<close>

type_synonym time = int

datatype Role = BUYER | FACTORY

datatype Action = CREATE_REQUEST | CREATE_EVIDENCE | ADD_VERSION | FULFILL_ITEM | LOGIN

datatype ObjectType = REQUEST | EVIDENCE | VERSION | REQUEST_ITEM

fun Role_value :: "Role \<Rightarrow> string" where
  "Role_value BUYER = ''buyer''"
| "Role_value FACTORY = ''factory''"

fun Action_value :: "Action \<Rightarrow> string" where
  "Action_value CREATE_REQUEST = ''CREATE_REQUEST''"
| "Action_value CREATE_EVIDENCE = ''CREATE_EVIDENCE''"
| "Action_value ADD_VERSION = ''ADD_VERSION''"
| "Action_value FULFILL_ITEM = ''FULFILL_ITEM''"
| "Action_value LOGIN = ''LOGIN''"

fun ObjectType_value :: "ObjectType \<Rightarrow> string" where
  "ObjectType_value REQUEST = ''Request''"
| "ObjectType_value EVIDENCE = ''Evidence''"
| "ObjectType_value VERSION = ''Version''"
| "ObjectType_value REQUEST_ITEM = ''RequestItem''"

text \<open>The values a metadata dictionary holds (\<open>Dict[str, Any]\<close>).\<close>

datatype json = JNull | JStr string | JInt int | JList "json list" | JObj "(string \<times> json) list"

fun json_opt :: "string option \<Rightarrow> json" where
  "json_opt None = JNull"
| "json_opt (Some s) = JStr s"

datatype error =
    HTTPException int string
  | IntegrityError string
  | IndexError

fun status_code :: "error \<Rightarrow> int" where
  "status_code (HTTPException c d) = c"
| "status_code (IntegrityError d) = 500"
| "status_code IndexError = 500"

subsection \<open>Rows of the six tables\<close>

record audit_row =
  audit_id :: int
  audit_timestamp :: time
  actor_user_id :: string
  actor_role :: string
  action :: string
  object_type :: string
  object_id :: string
  metadata :: "(string \<times> json) list"

record evidence_row =
  ev_id :: string
  ev_factory_id :: string
  ev_name :: string
  ev_doc_type :: string
  ev_created_at :: time

record version_row =
  ver_id :: string
  ver_evidence_id :: string
  version_number :: int
  ver_expiry :: "string option"
  ver_notes :: "string option"
  ver_created_at :: time

record request_row =
  req_id :: string
  req_buyer_id :: string
  req_factory_id :: string
  req_title :: string
  req_status :: string
  req_created_at :: time

record item_row =
  it_id :: string
  it_request_id :: string
  it_doc_type :: string
  it_status :: string
  it_evidence_id :: "string option"
  it_version_id :: "string option"
  fulfilled_at :: "time option"

record token_row =
  token :: string
  tok_user_id :: string
  tok_role :: string
  tok_factory_id :: "string option"
  tok_created_at :: time
  expires_at :: time

record db =
  audit_log :: "audit_row list"
  evidence :: "evidence_row list"
  evidence_versions :: "version_row list"
  requests :: "request_row list"
  request_items :: "item_row list"
  auth_tokens :: "token_row list"

text \<open>The database after \<open>init_db\<close> on a fresh file: six empty tables.\<close>

definition init_db :: db where
  "init_db = \<lparr>audit_log = [], evidence = [], evidence_versions = [], requests = [],
              request_items = [], auth_tokens = []\<rparr>"

subsection \<open>Request and response bodies (the pydantic models)\<close>

record LoginRequest =
  lq_userId :: string
  lq_role :: Role
  lq_factoryId :: "string option"

record LoginResponse =
  lp_token :: string
  lp_userId :: string
  lp_role :: string
  lp_factoryId :: "string option"

record EvidenceCreate =
  ec_name :: string
  ec_docType :: string
  ec_expiry :: "string option"
  ec_notes :: "string option"

record EvidenceResponse =
  evidenceId :: string
  versionId :: string

record VersionCreate =
  vc_notes :: "string option"
  vc_expiry :: "string option"

record RequestItem =
  docType :: string

record RequestCreate =
  rc_factoryId :: string
  rc_title :: string
  rc_items :: "RequestItem list"

record FulfillRequest =
  fr_evidenceId :: string
  fr_versionId :: string

text \<open>The dictionary that \<open>get_current_user\<close> returns.\<close>

record user =
  userId :: string
  role :: string
  factoryId :: "string option"

text \<open>The dictionaries that \<open>create_request\<close> and \<open>fulfill_request_item\<close> return.\<close>

record RequestCreated =
  requestId :: string
  rc_status :: string
  itemIds :: "string list"

record Fulfilled =
  success :: bool
  itemId :: string
  ff_status :: string

text \<open>One element of the listing that \<open>get_factory_requests\<close> returns.\<close>

record RequestListing =
  rl_requestId :: string
  rl_buyerId :: string
  rl_factoryId :: string
  rl_title :: string
  rl_status :: string
  rl_createdAt :: time
  rl_items :: "item_row list"

section \<open>Helper functions\<close>

text \<open>\<open>generate_id(prefix)\<close>; \<open>hex\<close> is what \<open>secrets.token_hex(4).upper()\<close> returned.\<close>

definition generate_id :: "string \<Rightarrow> string \<Rightarrow> string" where
  "generate_id prefix hex = prefix @ hex"

text \<open>
  \<open>with get_db() as conn\<close>: the body's writes are committed when it returns and rolled
  back when it raises.
\<close>

definition get_db :: "db \<Rightarrow> (db \<Rightarrow> error + db \<times> 'a) \<Rightarrow> db \<times> (error + 'a)" where
  "get_db conn body =
     (case body conn of
        Inl e \<Rightarrow> (conn, Inl e)
      | Inr (conn', r) \<Rightarrow> (conn', Inr r))"

text \<open>\<open>INTEGER PRIMARY KEY AUTOINCREMENT\<close>: one more than the largest id in use.\<close>

definition next_audit_id :: "audit_row list \<Rightarrow> int" where
  "next_audit_id rows = fold max (map audit_id rows) 0 + 1"

definition log_audit ::
  "db \<Rightarrow> time \<Rightarrow> string \<Rightarrow> string \<Rightarrow> Action \<Rightarrow> ObjectType \<Rightarrow> string \<Rightarrow> (string \<times> json) list \<Rightarrow> db"
where
  "log_audit conn now actor_user_id' actor_role' action' object_type' object_id' metadata' =
     conn\<lparr>audit_log := audit_log conn @
       [\<lparr>audit_id = next_audit_id (audit_log conn),
         audit_timestamp = now,
         actor_user_id = actor_user_id',
         actor_role = actor_role',
         action = Action_value action',
         object_type = ObjectType_value object_type',
         object_id = object_id',
         metadata = metadata'\<rparr>]\<rparr>"

text \<open>Python's truth value of an \<open>Optional[str]\<close>: None and the empty string are false.\<close>

fun truthy :: "string option \<Rightarrow> bool" where
  "truthy None = False"
| "truthy (Some s) = (s \<noteq> [])"

text \<open>\<open>s.split(" ")\<close>: cut at every single space.\<close>

fun str_split_space :: "string \<Rightarrow> string list" where
  "str_split_space [] = [[]]"
| "str_split_space (c # cs) =
     (if c = CHR '' '' then [] # str_split_space cs
      else (case str_split_space cs of
              w # ws \<Rightarrow> (c # w) # ws
            | [] \<Rightarrow> [[c]]))"

definition startswith :: "string \<Rightarrow> string \<Rightarrow> bool" where
  "startswith s p = (take (length p) s = p)"

text \<open>
  \<open>get_current_user\<close>: the \<open>Authorization\<close> header, the token table, the clock. It only
  reads, so the database is not returned.
\<close>

definition get_current_user :: "db \<Rightarrow> string option \<Rightarrow> time \<Rightarrow> error + user" where
  "get_current_user conn authorization now =
     (case authorization of
        None \<Rightarrow> Inl (HTTPException 401 ''Missing or invalid authorization header'')
      | Some a \<Rightarrow>
          if a = [] \<or> \<not> startswith a ''Bearer '' then
            Inl (HTTPException 401 ''Missing or invalid authorization header'')
          else
            (case str_split_space a of
               _ # tok # _ \<Rightarrow>
                 (case find (\<lambda>r. token r = tok) (auth_tokens conn) of
                    None \<Rightarrow> Inl (HTTPException 401 ''Invalid token'')
                  | Some row \<Rightarrow>
                      if expires_at row < now then Inl (HTTPException 401 ''Token expired'')
                      else Inr \<lparr>userId = tok_user_id row, role = tok_role row,
                                factoryId = tok_factory_id row\<rparr>)
             | _ \<Rightarrow> Inl IndexError))"

definition require_role :: "Role \<Rightarrow> db \<Rightarrow> string option \<Rightarrow> time \<Rightarrow> error + user" where
  "require_role required_role conn authorization now =
     (case get_current_user conn authorization now of
        Inl e \<Rightarrow> Inl e
      | Inr u \<Rightarrow>
          if role u \<noteq> Role_value required_role then
            Inl (HTTPException 403 (''Requires '' @ Role_value required_role @ '' role''))
          else Inr u)"

section \<open>The endpoints\<close>

text \<open>
  Each handler takes the database, its arguments as FastAPI passes them (the \<open>user\<close> is
  the result of the \<open>require_role\<close> dependency), and what it reads from the random source
  and from the clock, in the order of the reads. It returns the database as persisted
  afterwards and the response or the exception.
\<close>

definition login ::
  "db \<Rightarrow> LoginRequest \<Rightarrow> string \<Rightarrow> time \<Rightarrow> time \<Rightarrow> time \<Rightarrow> db \<times> (error + LoginResponse)"
where
  "login conn request tok now_issue now_created now_audit =
     (if lq_role request = FACTORY \<and> \<not> truthy (lq_factoryId request) then
        (conn, Inl (HTTPException 400 ''Factory role requires factoryId''))
      else if lq_role request = BUYER \<and> truthy (lq_factoryId request) then
        (conn, Inl (HTTPException 400 ''Buyer role should not have factoryId''))
      else
        (let expires = now_issue + 86400000000 in
         get_db conn (\<lambda>conn.
           if tok \<in> set (map token (auth_tokens conn)) then
             Inl (IntegrityError ''auth_tokens.token'')
           else
             (let conn1 = conn\<lparr>auth_tokens := auth_tokens conn @
                    [\<lparr>token = tok,
                      tok_user_id = lq_userId request,
                      tok_role = Role_value (lq_role request),
                      tok_factory_id = lq_factoryId request,
                      tok_created_at = now_created,
                      expires_at = expires\<rparr>]\<rparr>
              in Inr (log_audit conn1 now_audit (lq_userId request)
                        (Role_value (lq_role request)) LOGIN REQUEST ''N/A''
                        [(''userId'', JStr (lq_userId request)),
                         (''role'', JStr (Role_value (lq_role request))),
                         (''factoryId'', json_opt (lq_factoryId request))],
                      \<lparr>lp_token = tok,
                       lp_userId = lq_userId request,
                       lp_role = Role_value (lq_role request),
                       lp_factoryId = lq_factoryId request\<rparr>)))))"

definition create_evidence ::
  "db \<Rightarrow> EvidenceCreate \<Rightarrow> user \<Rightarrow> string \<Rightarrow> string \<Rightarrow> time \<Rightarrow> time \<Rightarrow> time
     \<Rightarrow> db \<times> (error + EvidenceResponse)"
where
  "create_evidence conn ev u hex_e hex_v now_e now_v now_audit =
     (let evidence_id = generate_id ''E'' hex_e;
          version_id = generate_id ''V'' hex_v
      in get_db conn (\<lambda>conn.
           case factoryId u of
             None \<Rightarrow> Inl (IntegrityError ''evidence.factory_id'')
           | Some fid \<Rightarrow>
               if evidence_id \<in> set (map ev_id (evidence conn)) then
                 Inl (IntegrityError ''evidence.id'')
               else
                 (let conn1 = conn\<lparr>evidence := evidence conn @
                        [\<lparr>ev_id = evidence_id,
                          ev_factory_id = fid,
                          ev_name = ec_name ev,
                          ev_doc_type = ec_docType ev,
                          ev_created_at = now_e\<rparr>]\<rparr>
                  in if version_id \<in> set (map ver_id (evidence_versions conn1)) then
                       Inl (IntegrityError ''evidence_versions.id'')
                     else
                       (let conn2 = conn1\<lparr>evidence_versions := evidence_versions conn1 @
                              [\<lparr>ver_id = version_id,
                                ver_evidence_id = evidence_id,
                                version_number = 1,
                                ver_expiry = ec_expiry ev,
                                ver_notes = ec_notes ev,
                                ver_created_at = now_v\<rparr>]\<rparr>
                        in Inr (log_audit conn2 now_audit (userId u) (role u)
                                  CREATE_EVIDENCE EVIDENCE evidence_id
                                  [(''factoryId'', json_opt (factoryId u)),
                                   (''name'', JStr (ec_name ev)),
                                   (''docType'', JStr (ec_docType ev)),
                                   (''versionId'', JStr version_id)],
                                \<lparr>evidenceId = evidence_id, versionId = version_id\<rparr>)))))"

text \<open>\<open>SELECT MAX(c)\<close>: NULL on no rows.\<close>

fun sql_max :: "int list \<Rightarrow> int option" where
  "sql_max [] = None"
| "sql_max (x # xs) = Some (fold max xs x)"

text \<open>\<open>v or 0\<close> on an optional integer: None and 0 are false.\<close>

fun or_zero :: "int option \<Rightarrow> int" where
  "or_zero None = 0"
| "or_zero (Some v) = (if v = 0 then 0 else v)"

definition add_evidence_version ::
  "db \<Rightarrow> string \<Rightarrow> VersionCreate \<Rightarrow> user \<Rightarrow> string \<Rightarrow> time \<Rightarrow> time
     \<Rightarrow> db \<times> (error + EvidenceResponse)"
where
  "add_evidence_version conn evidence_id version u hex_v now_v now_audit =
     get_db conn (\<lambda>conn.
       case find (\<lambda>e. ev_id e = evidence_id) (evidence conn) of
         None \<Rightarrow> Inl (HTTPException 404 ''Evidence not found'')
       | Some row \<Rightarrow>
           if Some (ev_factory_id row) \<noteq> factoryId u then
             Inl (HTTPException 403 ''Cannot add version to other factory's evidence'')
           else
             (let max_version = or_zero (sql_max (map version_number
                    (filter (\<lambda>v. ver_evidence_id v = evidence_id) (evidence_versions conn))));
                  new_version_number = max_version + 1;
                  version_id = generate_id ''V'' hex_v
              in if version_id \<in> set (map ver_id (evidence_versions conn)) then
                   Inl (IntegrityError ''evidence_versions.id'')
                 else
                   (let conn1 = conn\<lparr>evidence_versions := evidence_versions conn @
                          [\<lparr>ver_id = version_id,
                            ver_evidence_id = evidence_id,
                            version_number = new_version_number,
                            ver_expiry = vc_expiry version,
                            ver_notes = vc_notes version,
                            ver_created_at = now_v\<rparr>]\<rparr>
                    in Inr (log_audit conn1 now_audit (userId u) (role u)
                              ADD_VERSION VERSION version_id
                              [(''factoryId'', json_opt (factoryId u)),
                               (''evidenceId'', JStr evidence_id),
                               (''versionNumber'', JInt new_version_number)],
                            \<lparr>evidenceId = evidence_id, versionId = version_id\<rparr>))))"

text \<open>
  The loop of \<open>create_request\<close> over \<open>request.items\<close>: the item at position \<open>k\<close> of
  the loop takes the draw \<open>rnd k\<close>; \<open>tbl\<close> is the \<open>request_items\<close> table.
\<close>

fun insert_items ::
  "string \<Rightarrow> (nat \<Rightarrow> string) \<Rightarrow> nat \<Rightarrow> RequestItem list \<Rightarrow> item_row list \<Rightarrow> string list
     \<Rightarrow> error + item_row list \<times> string list"
where
  "insert_items request_id rnd k [] tbl item_ids = Inr (tbl, item_ids)"
| "insert_items request_id rnd k (item # items) tbl item_ids =
     (let item_id = generate_id ''I'' (rnd k)
      in if item_id \<in> set (map it_id tbl) then Inl (IntegrityError ''request_items.id'')
         else insert_items request_id rnd (Suc k) items
                (tbl @ [\<lparr>it_id = item_id,
                         it_request_id = request_id,
                         it_doc_type = docType item,
                         it_status = ''pending'',
                         it_evidence_id = None,
                         it_version_id = None,
                         fulfilled_at = None\<rparr>])
                (item_ids @ [item_id]))"

definition create_request ::
  "db \<Rightarrow> RequestCreate \<Rightarrow> user \<Rightarrow> string \<Rightarrow> (nat \<Rightarrow> string) \<Rightarrow> time \<Rightarrow> time
     \<Rightarrow> db \<times> (error + RequestCreated)"
where
  "create_request conn request u hex_r rnd now_r now_audit =
     (let request_id = generate_id ''R'' hex_r
      in get_db conn (\<lambda>conn.
           if request_id \<in> set (map req_id (requests conn)) then
             Inl (IntegrityError ''requests.id'')
           else
             (let conn1 = conn\<lparr>requests := requests conn @
                    [\<lparr>req_id = request_id,
                      req_buyer_id = userId u,
                      req_factory_id = rc_factoryId request,
                      req_title = rc_title request,
                      req_status = ''pending'',
                      req_created_at = now_r\<rparr>]\<rparr>
              in case insert_items request_id rnd 0 (rc_items request) (request_items conn1) [] of
                   Inl e \<Rightarrow> Inl e
                 | Inr (tbl, item_ids) \<Rightarrow>
                     Inr (log_audit (conn1\<lparr>request_items := tbl\<rparr>) now_audit (userId u) (role u)
                            CREATE_REQUEST REQUEST request_id
                            [(''buyerId'', JStr (userId u)),
                             (''factoryId'', JStr (rc_factoryId request)),
                             (''title'', JStr (rc_title request)),
                             (''itemCount'', JInt (int (length (rc_items request)))),
                             (''items'', JList (map (\<lambda>item. JObj [(''docType'', JStr (docType item))])
                                                   (rc_items request)))],
                          \<lparr>requestId = request_id, rc_status = ''pending'',
                           itemIds = item_ids\<rparr>))))"

text \<open>
  \<open>get_factory_requests\<close>. \<open>WHERE factory_id = ?\<close> selects nothing on a NULL parameter.
  \<open>ORDER BY created_at DESC\<close> compares the ISO texts, which order as the instants do;
  it leaves the order of rows created at the same instant to SQLite, and the model keeps
  their insertion order. The nested items are given as whole rows (the source selects
  every column but \<open>request_id\<close>).
\<close>

definition get_factory_requests :: "db \<Rightarrow> user \<Rightarrow> db \<times> (error + RequestListing list)" where
  "get_factory_requests conn u =
     get_db conn (\<lambda>conn.
       let rows = (case factoryId u of
                     None \<Rightarrow> []
                   | Some fid \<Rightarrow>
                       sort_key (\<lambda>r. - req_created_at r)
                         (filter (\<lambda>r. req_factory_id r = fid) (requests conn)))
       in Inr (conn,
               map (\<lambda>row.
                     \<lparr>rl_requestId = req_id row,
                      rl_buyerId = req_buyer_id row,
                      rl_factoryId = req_factory_id row,
                      rl_title = req_title row,
                      rl_status = req_status row,
                      rl_createdAt = req_created_at row,
                      rl_items = filter (\<lambda>i. it_request_id i = req_id row) (request_items conn)\<rparr>)
                   rows))"

text \<open>
  The three statements that \<open>fulfill_request_item\<close> runs once its checks have passed.
  \<open>UPDATE request_items SET status = 'fulfilled', ... WHERE id = ?\<close>:
\<close>

definition update_item :: "item_row list \<Rightarrow> string \<Rightarrow> string \<Rightarrow> string \<Rightarrow> time \<Rightarrow> item_row list" where
  "update_item tbl item_id evidence_id version_id now =
     map (\<lambda>i. if it_id i = item_id then
                i\<lparr>it_status := ''fulfilled'',
                  it_evidence_id := Some evidence_id,
                  it_version_id := Some version_id,
                  fulfilled_at := Some now\<rparr>
              else i) tbl"

text \<open>
  \<open>SELECT COUNT(*) as total, SUM(CASE WHEN status = 'fulfilled' THEN 1 ELSE 0 END) as
  fulfilled FROM request_items WHERE request_id = ?\<close>; the sum is NULL on no rows.
\<close>

definition count_items :: "item_row list \<Rightarrow> string \<Rightarrow> int \<times> int option" where
  "count_items tbl request_id =
     (let rows = filter (\<lambda>i. it_request_id i = request_id) tbl
      in (int (length rows),
          if rows = [] then None
          else Some (sum_list (map (\<lambda>i. if it_status i = ''fulfilled'' then 1 else 0) rows))))"

text \<open>\<open>UPDATE requests SET status = 'completed' WHERE id = ?\<close>:\<close>

definition complete_request :: "request_row list \<Rightarrow> string \<Rightarrow> request_row list" where
  "complete_request tbl request_id =
     map (\<lambda>r. if req_id r = request_id then r\<lparr>req_status := ''completed''\<rparr> else r) tbl"

definition fulfill_request_item ::
  "db \<Rightarrow> string \<Rightarrow> string \<Rightarrow> FulfillRequest \<Rightarrow> user \<Rightarrow> time \<Rightarrow> time \<Rightarrow> db \<times> (error + Fulfilled)"
where
  "fulfill_request_item conn request_id item_id fulfill u now_f now_audit =
     get_db conn (\<lambda>conn.
       case find (\<lambda>r. req_id r = request_id) (requests conn) of
         None \<Rightarrow> Inl (HTTPException 404 ''Request not found'')
       | Some request_row \<Rightarrow>
           if Some (req_factory_id request_row) \<noteq> factoryId u then
             Inl (HTTPException 403 ''Cannot fulfill other factory's requests'')
           else
             (case find (\<lambda>i. it_id i = item_id \<and> it_request_id i = request_id)
                     (request_items conn) of
                None \<Rightarrow> Inl (HTTPException 404 ''Request item not found'')
              | Some item_row \<Rightarrow>
                  (case find (\<lambda>e. ev_id e = fr_evidenceId fulfill) (evidence conn) of
                     None \<Rightarrow> Inl (HTTPException 404 ''Evidence not found'')
                   | Some evidence_row \<Rightarrow>
                       if Some (ev_factory_id evidence_row) \<noteq> factoryId u then
                         Inl (HTTPException 403 ''Cannot use other factory's evidence'')
                       else
                         (case find (\<lambda>v. ver_id v = fr_versionId fulfill
                                          \<and> ver_evidence_id v = fr_evidenceId fulfill)
                                 (evidence_versions conn) of
                            None \<Rightarrow> Inl (HTTPException 404 ''Evidence version not found'')
                          | Some _ \<Rightarrow>
                              (let conn1 = conn\<lparr>request_items :=
                                     update_item (request_items conn) item_id
                                       (fr_evidenceId fulfill) (fr_versionId fulfill) now_f\<rparr>;
                                   counts = count_items (request_items conn1) request_id;
                                   conn2 =
                                     (if Some (fst counts) = snd counts then
                                        conn1\<lparr>requests :=
                                          complete_request (requests conn1) request_id\<rparr>
                                      else conn1)
                               in Inr (log_audit conn2 now_audit (userId u) (role u)
                                         FULFILL_ITEM REQUEST_ITEM item_id
                                         [(''factoryId'', json_opt (factoryId u)),
                                          (''buyerId'', JStr (req_buyer_id request_row)),
                                          (''requestId'', JStr request_id),
                                          (''docType'', JStr (it_doc_type item_row)),
                                          (''evidenceId'', JStr (fr_evidenceId fulfill)),
                                          (''versionId'', JStr (fr_versionId fulfill)),
                                          (''previousStatus'', JStr (it_status item_row)),
                                          (''newStatus'', JStr ''fulfilled'')],
                                       \<lparr>success = True, itemId = item_id,
                                        ff_status = ''fulfilled''\<rparr>))))))"

text \<open>
  \<open>get_audit_log\<close>: newest first, at most \<open>limit\<close> rows (a negative \<open>LIMIT\<close> is no
  limit in SQLite).
\<close>

definition get_audit_log :: "db \<Rightarrow> int \<Rightarrow> user \<Rightarrow> db \<times> (error + audit_row list)" where
  "get_audit_log conn limit u =
     get_db conn (\<lambda>conn.
       let rows = sort_key (\<lambda>r. - audit_timestamp r) (audit_log conn)
       in Inr (conn, if limit < 0 then rows else take (nat limit) rows))"

section \<open>The service as a transition system\<close>

text \<open>
  A call is one HTTP request: the \<open>Authorization\<close> header, the path and body
  parameters, and what the handling reads from the random source (\<open>rnd\<close>, by position)
  and from the clock (\<open>clock\<close>, by position). FastAPI resolves the dependency
  (\<open>get_current_user\<close>, then the role check) before it runs the handler.
\<close>

datatype call =
    Login LoginRequest string "nat \<Rightarrow> time"
  | CreateEvidence "string option" EvidenceCreate "nat \<Rightarrow> string" "nat \<Rightarrow> time"
  | AddEvidenceVersion "string option" string VersionCreate "nat \<Rightarrow> string" "nat \<Rightarrow> time"
  | CreateRequest "string option" RequestCreate "nat \<Rightarrow> string" "nat \<Rightarrow> time"
  | GetFactoryRequests "string option" "nat \<Rightarrow> time"
  | FulfillRequestItem "string option" string string FulfillRequest "nat \<Rightarrow> time"
  | GetAuditLog "string option" int "nat \<Rightarrow> time"
  | Root

text \<open>The database after a call.\<close>

fun step :: "db \<Rightarrow> call \<Rightarrow> db" where
  "step conn (Login request tok clock) =
     fst (login conn request tok (clock 0) (clock 1) (clock 2))"
| "step conn (CreateEvidence authorization ev rnd clock) =
     (case require_role FACTORY conn authorization (clock 0) of
        Inl e \<Rightarrow> conn
      | Inr u \<Rightarrow> fst (create_evidence conn ev u (rnd 0) (rnd 1) (clock 1) (clock 2) (clock 3)))"
| "step conn (AddEvidenceVersion authorization evidence_id version rnd clock) =
     (case require_role FACTORY conn authorization (clock 0) of
        Inl e \<Rightarrow> conn
      | Inr u \<Rightarrow> fst (add_evidence_version conn evidence_id version u (rnd 0) (clock 1) (clock 2)))"
| "step conn (CreateRequest authorization request rnd clock) =
     (case require_role BUYER conn authorization (clock 0) of
        Inl e \<Rightarrow> conn
      | Inr u \<Rightarrow> fst (create_request conn request u (rnd 0) (\<lambda>k. rnd (Suc k)) (clock 1) (clock 2)))"
| "step conn (GetFactoryRequests authorization clock) =
     (case require_role FACTORY conn authorization (clock 0) of
        Inl e \<Rightarrow> conn
      | Inr u \<Rightarrow> fst (get_factory_requests conn u))"
| "step conn (FulfillRequestItem authorization request_id item_id fulfill clock) =
     (case require_role FACTORY conn authorization (clock 0) of
        Inl e \<Rightarrow> conn
      | Inr u \<Rightarrow> fst (fulfill_request_item conn request_id item_id fulfill u (clock 1) (clock 2)))"
| "step conn (GetAuditLog authorization limit clock) =
     (case get_current_user conn authorization (clock 0) of
        Inl e \<Rightarrow> conn
      | Inr u \<Rightarrow> fst (get_audit_log conn limit u))"
| "step conn Root = conn"

definition run :: "db \<Rightarrow> call list \<Rightarrow> db" where
  "run conn calls = foldl step conn calls"

section \<open>Queries used in the statements\<close>

text \<open>
  The version numbers on record for an evidence id, in insertion order (the rows that the
  \<open>MAX(version_number)\<close> query of \<open>add_evidence_version\<close> ranges over).
\<close>

definition version_numbers_of :: "version_row list \<Rightarrow> string \<Rightarrow> int list" where
  "version_numbers_of tbl evidence_id =
     map version_number (filter (\<lambda>v. ver_evidence_id v = evidence_id) tbl)"

text \<open>
  The comparison \<open>counts['total'] == counts['fulfilled']\<close> of \<open>fulfill_request_item\<close>
  on the rows of a request.
\<close>

definition items_complete :: "item_row list \<Rightarrow> string \<Rightarrow> bool" where
  "items_complete tbl request_id =
     (let counts = count_items tbl request_id in Some (fst counts) = snd counts)"

text \<open>Whether the item with this id is on record as fulfilled.\<close>

definition item_fulfilled :: "db \<Rightarrow> string \<Rightarrow> bool" where
  "item_fulfilled conn k =
     (case find (\<lambda>i. it_id i = k) (request_items conn) of
        None \<Rightarrow> False
      | Some i \<Rightarrow> it_status i = ''fulfilled'')"

text \<open>The stored status of the request with this id.\<close>

definition request_status :: "db \<Rightarrow> string \<Rightarrow> string option" where
  "request_status conn k = map_option req_status (find (\<lambda>r. req_id r = k) (requests conn))"

text \<open>Whether every item that belongs to the request has status fulfilled.\<close>

definition all_items_fulfilled :: "db \<Rightarrow> string \<Rightarrow> bool" where
  "all_items_fulfilled conn k =
     (\<forall>i \<in> set (request_items conn). it_request_id i = k \<longrightarrow> it_status i = ''fulfilled'')"

text \<open>
  The invariant behind the request status: a request is pending or completed, and a
  completed request has no item that is not fulfilled.
\<close>

definition status_inv :: "db \<Rightarrow> bool" where
  "status_inv conn =
     (\<forall>r \<in> set (requests conn).
        req_status r = ''pending''
        \<or> (req_status r = ''completed'' \<and> all_items_fulfilled conn (req_id r)))"

text \<open>Whether the request has an item at all.\<close>

definition has_items :: "db \<Rightarrow> string \<Rightarrow> bool" where
  "has_items conn k = (\<exists>i \<in> set (request_items conn). it_request_id i = k)"

text \<open>
  The invariant behind the status of every request: item ids are unique, every item row
  refers to a request row, and a request is stored as completed exactly when it has an
  item and all its items are fulfilled, and as pending otherwise.
\<close>

definition requests_inv :: "db \<Rightarrow> bool" where
  "requests_inv conn =
     (distinct (map it_id (request_items conn))
      \<and> (\<forall>i \<in> set (request_items conn). it_request_id i \<in> req_id ` set (requests conn))
      \<and> (\<forall>row \<in> set (requests conn).
            req_status row =
              (if has_items conn (req_id row) \<and> all_items_fulfilled conn (req_id row)
               then ''completed'' else ''pending'')))"

text \<open>
  The invariant behind the version numbers: every version row refers to an evidence row,
  and the numbers on record for an evidence id are 1, 2, ... in insertion order.
\<close>

definition versions_inv :: "db \<Rightarrow> bool" where
  "versions_inv conn =
     ((\<forall>v \<in> set (evidence_versions conn). ver_evidence_id v \<in> ev_id ` set (evidence conn))
      \<and> (\<forall>e. version_numbers_of (evidence_versions conn) e =
               [1..int (length (version_numbers_of (evidence_versions conn) e))]))"

text \<open>Every item row refers to a request row.\<close>

definition items_have_request :: "db \<Rightarrow> bool" where
  "items_have_request conn =
     (\<forall>i \<in> set (request_items conn). it_request_id i \<in> req_id ` set (requests conn))"

text \<open>The request is stored as pending and no item row refers to it.\<close>

definition pending_without_items :: "db \<Rightarrow> string \<Rightarrow> bool" where
  "pending_without_items conn k =
     (request_status conn k = Some ''pending'' \<and> k \<notin> it_request_id ` set (request_items conn))"

text \<open>The audit table of \<open>conn'\<close> is that of \<open>conn\<close> with this one row appended.\<close>

definition audit_appended ::
  "db \<Rightarrow> db \<Rightarrow> time \<Rightarrow> string \<Rightarrow> string \<Rightarrow> string \<Rightarrow> string \<Rightarrow> string \<Rightarrow> (string \<times> json) list \<Rightarrow> bool"
where
  "audit_appended conn conn' now actor_user_id' actor_role' action' object_type' object_id' metadata' =
     (audit_log conn' = audit_log conn @
        [\<lparr>audit_id = next_audit_id (audit_log conn), audit_timestamp = now,
          actor_user_id = actor_user_id', actor_role = actor_role', action = action',
          object_type = object_type', object_id = object_id', metadata = metadata'\<rparr>])"

section \<open>A concrete database for the closed theorems\<close>

text \<open>
  Two factories, F001 and F002, each with one evidence document (that of F001 in two
  versions, that of F002 in one); a buyer's
  request to F001 with two items and one to F002 with one item; one session per identity.
\<close>

definition example_db :: db where
  "example_db =
     \<lparr>audit_log = [],
      evidence =
        [\<lparr>ev_id = ''E0A1B2C3D'', ev_factory_id = ''F001'', ev_name = ''Safety Test Report'',
          ev_doc_type = ''Test Report'', ev_created_at = 10\<rparr>,
         \<lparr>ev_id = ''E11223344'', ev_factory_id = ''F002'', ev_name = ''Certificate'',
          ev_doc_type = ''ISO Certificate'', ev_created_at = 20\<rparr>],
      evidence_versions =
        [\<lparr>ver_id = ''V0000AAAA'', ver_evidence_id = ''E0A1B2C3D'', version_number = 1,
          ver_expiry = None, ver_notes = None, ver_created_at = 10\<rparr>,
         \<lparr>ver_id = ''V0000BBBB'', ver_evidence_id = ''E11223344'', version_number = 1,
          ver_expiry = None, ver_notes = None, ver_created_at = 20\<rparr>,
         \<lparr>ver_id = ''V0000CCCC'', ver_evidence_id = ''E0A1B2C3D'', version_number = 2,
          ver_expiry = Some ''2026-06-30'', ver_notes = Some ''Updated report'',
          ver_created_at = 25\<rparr>],
      requests =
        [\<lparr>req_id = ''R00000001'', req_buyer_id = ''buyer1'', req_factory_id = ''F001'',
          req_title = ''Q1 Compliance'', req_status = ''pending'', req_created_at = 30\<rparr>,
         \<lparr>req_id = ''R00000002'', req_buyer_id = ''buyer1'', req_factory_id = ''F002'',
          req_title = ''Q2 Compliance'', req_status = ''pending'', req_created_at = 40\<rparr>],
      request_items =
        [\<lparr>it_id = ''I0000000A'', it_request_id = ''R00000001'', it_doc_type = ''Test Report'',
          it_status = ''pending'', it_evidence_id = None, it_version_id = None,
          fulfilled_at = None\<rparr>,
         \<lparr>it_id = ''I0000000B'', it_request_id = ''R00000001'', it_doc_type = ''Certificate'',
          it_status = ''pending'', it_evidence_id = None, it_version_id = None,
          fulfilled_at = None\<rparr>,
         \<lparr>it_id = ''I0000000C'', it_request_id = ''R00000002'', it_doc_type = ''Certificate'',
          it_status = ''pending'', it_evidence_id = None, it_version_id = None,
          fulfilled_at = None\<rparr>],
      auth_tokens =
        [\<lparr>token = ''tokF1'', tok_user_id = ''factory_user1'', tok_role = ''factory'',
          tok_factory_id = Some ''F001'', tok_created_at = 0, expires_at = 86400000000\<rparr>,
         \<lparr>token = ''tokF2'', tok_user_id = ''factory_user2'', tok_role = ''factory'',
          tok_factory_id = Some ''F002'', tok_created_at = 1, expires_at = 86400000001\<rparr>,
         \<lparr>token = ''tokB1'', tok_user_id = ''buyer1'', tok_role = ''buyer'',
          tok_factory_id = None, tok_created_at = 2, expires_at = 86400000002\<rparr>]\<rparr>"

definition factory_user1 :: user where
  "factory_user1 = \<lparr>userId = ''factory_user1'', role = ''factory'', factoryId = Some ''F001''\<rparr>"

definition factory_user2 :: user where
  "factory_user2 = \<lparr>userId = ''factory_user2'', role = ''factory'', factoryId = Some ''F002''\<rparr>"

definition buyer1 :: user where
  "buyer1 = \<lparr>userId = ''buyer1'', role = ''buyer'', factoryId = None\<rparr>"

text \<open>
  The item I0000000A of the example fulfilled with version 1 of F001's evidence, and then
  once more with version 2.
\<close>

definition fulfilled_once :: db where
  "fulfilled_once =
     fst (fulfill_request_item example_db ''R00000001'' ''I0000000A''
            \<lparr>fr_evidenceId = ''E0A1B2C3D'', fr_versionId = ''V0000AAAA''\<rparr> factory_user1 50 51)"

definition fulfilled_twice :: db where
  "fulfilled_twice =
     fst (fulfill_request_item fulfilled_once ''R00000001'' ''I0000000A''
            \<lparr>fr_evidenceId = ''E0A1B2C3D'', fr_versionId = ''V0000CCCC''\<rparr> factory_user1 60 61)"

text \<open>
  A run of the service from the empty database: the buyer and the factory log in, the
  buyer requests two documents from F001, the factory creates an evidence document and
  adds a second version to it.
\<close>

definition example_calls :: "call list" where
  "example_calls =
     [Login \<lparr>lq_userId = ''buyer1'', lq_role = BUYER, lq_factoryId = None\<rparr> ''tokB1''
        (\<lambda>k. int k),
      Login \<lparr>lq_userId = ''factory_user1'', lq_role = FACTORY, lq_factoryId = Some ''F001''\<rparr>
        ''tokF1'' (\<lambda>k. 10 + int k),
      CreateRequest (Some ''Bearer tokB1'')
        \<lparr>rc_factoryId = ''F001'', rc_title = ''Q1 Compliance'',
         rc_items = [\<lparr>docType = ''Test Report''\<rparr>, \<lparr>docType = ''Certificate''\<rparr>]\<rparr>
        (\<lambda>k. case k of 0 \<Rightarrow> ''00000001'' | Suc 0 \<Rightarrow> ''0000000A'' | _ \<Rightarrow> ''0000000B'')
        (\<lambda>k. 20 + int k),
      CreateEvidence (Some ''Bearer tokF1'')
        \<lparr>ec_name = ''Safety Test Report'', ec_docType = ''Test Report'', ec_expiry = None,
         ec_notes = None\<rparr>
        (\<lambda>k. case k of 0 \<Rightarrow> ''0A1B2C3D'' | _ \<Rightarrow> ''0000AAAA'')
        (\<lambda>k. 30 + int k),
      AddEvidenceVersion (Some ''Bearer tokF1'') ''E0A1B2C3D''
        \<lparr>vc_notes = Some ''Updated report'', vc_expiry = Some ''2026-06-30''\<rparr>
        (\<lambda>k. ''0000CCCC'') (\<lambda>k. 40 + int k)]"

definition example_state :: db where
  "example_state = run init_db example_calls"

text \<open>The factory then fulfils the first item of the request.\<close>

definition example_fulfill_A :: call where
  "example_fulfill_A =
     FulfillRequestItem (Some ''Bearer tokF1'') ''R00000001'' ''I0000000A''
       \<lparr>fr_evidenceId = ''E0A1B2C3D'', fr_versionId = ''V0000AAAA''\<rparr> (\<lambda>k. 49 + int k)"

text \<open>
  The buyer also creates a request without items; then the factory fulfils both items of
  the first request.
\<close>

definition example_empty_request :: call where
  "example_empty_request =
     CreateRequest (Some ''Bearer tokB1'')
       \<lparr>rc_factoryId = ''F001'', rc_title = ''Nothing yet'', rc_items = []\<rparr>
       (\<lambda>k. ''00000002'') (\<lambda>k. 44 + int k)"

definition example_fulfill_B :: call where
  "example_fulfill_B =
     FulfillRequestItem (Some ''Bearer tokF1'') ''R00000001'' ''I0000000B''
       \<lparr>fr_evidenceId = ''E0A1B2C3D'', fr_versionId = ''V0000CCCC''\<rparr> (\<lambda>k. 59 + int k)"

section \<open>Basic facts\<close>

lemma find_SomeD: "find P xs = Some x \<Longrightarrow> P x \<and> x \<in> set xs"
  by (induction xs) (auto split: if_splits)

lemma str_split_space_no_space:
  "CHR '' '' \<notin> set s \<Longrightarrow> str_split_space s = [s]"
  by (induction s) auto

section \<open>What each handler does to the database\<close>

text \<open>
  The audit write touches the audit table only; each handler either raises and leaves
  the database as it was, or succeeds with the database given here.
\<close>

lemma log_audit_tables [simp]:
  "evidence (log_audit c t a r ac ot oi m) = evidence c"
  "evidence_versions (log_audit c t a r ac ot oi m) = evidence_versions c"
  "requests (log_audit c t a r ac ot oi m) = requests c"
  "request_items (log_audit c t a r ac ot oi m) = request_items c"
  "auth_tokens (log_audit c t a r ac ot oi m) = auth_tokens c"
  by (simp_all add: log_audit_def)

lemma audit_log_log_audit:
  "audit_log (log_audit c t a r ac ot oi m) = audit_log c @
     [\<lparr>audit_id = next_audit_id (audit_log c), audit_timestamp = t, actor_user_id = a,
       actor_role = r, action = Action_value ac, object_type = ObjectType_value ot,
       object_id = oi, metadata = m\<rparr>]"
  by (simp add: log_audit_def)

lemma login_cases:
  "(\<exists>e. login conn request tok t0 t1 t2 = (conn, Inl e))
   \<or> (tok \<notin> token ` set (auth_tokens conn) \<and>
      login conn request tok t0 t1 t2 =
        (log_audit (conn\<lparr>auth_tokens := auth_tokens conn @
            [\<lparr>token = tok, tok_user_id = lq_userId request,
              tok_role = Role_value (lq_role request), tok_factory_id = lq_factoryId request,
              tok_created_at = t1, expires_at = t0 + 86400000000\<rparr>]\<rparr>)
           t2 (lq_userId request) (Role_value (lq_role request)) LOGIN REQUEST ''N/A''
           [(''userId'', JStr (lq_userId request)),
            (''role'', JStr (Role_value (lq_role request))),
            (''factoryId'', json_opt (lq_factoryId request))],
         Inr \<lparr>lp_token = tok, lp_userId = lq_userId request,
              lp_role = Role_value (lq_role request), lp_factoryId = lq_factoryId request\<rparr>))"
  by (simp add: login_def get_db_def Let_def)

lemma create_evidence_cases:
  "(\<exists>e. create_evidence conn ev u he hv t1 t2 t3 = (conn, Inl e))
   \<or> (\<exists>fid. factoryId u = Some fid \<and>
      generate_id ''E'' he \<notin> ev_id ` set (evidence conn) \<and>
      generate_id ''V'' hv \<notin> ver_id ` set (evidence_versions conn) \<and>
      create_evidence conn ev u he hv t1 t2 t3 =
        (log_audit (conn\<lparr>evidence := evidence conn @
              [\<lparr>ev_id = generate_id ''E'' he, ev_factory_id = fid, ev_name = ec_name ev,
                ev_doc_type = ec_docType ev, ev_created_at = t1\<rparr>],
            evidence_versions := evidence_versions conn @
              [\<lparr>ver_id = generate_id ''V'' hv, ver_evidence_id = generate_id ''E'' he,
                version_number = 1, ver_expiry = ec_expiry ev, ver_notes = ec_notes ev,
                ver_created_at = t2\<rparr>]\<rparr>)
           t3 (userId u) (role u) CREATE_EVIDENCE EVIDENCE (generate_id ''E'' he)
           [(''factoryId'', json_opt (factoryId u)), (''name'', JStr (ec_name ev)),
            (''docType'', JStr (ec_docType ev)), (''versionId'', JStr (generate_id ''V'' hv))],
         Inr \<lparr>evidenceId = generate_id ''E'' he, versionId = generate_id ''V'' hv\<rparr>))"
  by (cases "factoryId u") (simp_all add: create_evidence_def get_db_def Let_def)

lemma add_evidence_version_cases:
  "(\<exists>e. add_evidence_version conn evidence_id version u hv t1 t2 = (conn, Inl e))
   \<or> (\<exists>row. find (\<lambda>e. ev_id e = evidence_id) (evidence conn) = Some row \<and>
      Some (ev_factory_id row) = factoryId u \<and>
      generate_id ''V'' hv \<notin> ver_id ` set (evidence_versions conn) \<and>
      add_evidence_version conn evidence_id version u hv t1 t2 =
        (log_audit (conn\<lparr>evidence_versions := evidence_versions conn @
              [\<lparr>ver_id = generate_id ''V'' hv, ver_evidence_id = evidence_id,
                version_number = or_zero (sql_max (map version_number
                    (filter (\<lambda>v. ver_evidence_id v = evidence_id) (evidence_versions conn)))) + 1,
                ver_expiry = vc_expiry version, ver_notes = vc_notes version,
                ver_created_at = t1\<rparr>]\<rparr>)
           t2 (userId u) (role u) ADD_VERSION VERSION (generate_id ''V'' hv)
           [(''factoryId'', json_opt (factoryId u)), (''evidenceId'', JStr evidence_id),
            (''versionNumber'', JInt (or_zero (sql_max (map version_number
                    (filter (\<lambda>v. ver_evidence_id v = evidence_id) (evidence_versions conn)))) + 1))],
         Inr \<lparr>evidenceId = evidence_id, versionId = generate_id ''V'' hv\<rparr>))"
  by (cases "find (\<lambda>e. ev_id e = evidence_id) (evidence conn)")
     (simp_all add: add_evidence_version_def get_db_def Let_def)


lemma insert_items_shape:
  "insert_items request_id rnd k items tbl item_ids = Inr (tbl', item_ids') \<Longrightarrow>
     \<exists>new. tbl' = tbl @ new \<and> item_ids' = item_ids @ map it_id new
       \<and> length new = length items
       \<and> (\<forall>i \<in> set new. it_request_id i = request_id \<and> it_status i = ''pending'')"
proof (induction items arbitrary: k tbl item_ids)
  case Nil
  then show ?case by simp
next
  case (Cons item items)
  let ?row = "\<lparr>it_id = generate_id ''I'' (rnd k), it_request_id = request_id,
                it_doc_type = docType item, it_status = ''pending'', it_evidence_id = None,
                it_version_id = None, fulfilled_at = None\<rparr>"
  from Cons.prems
  have rest: "insert_items request_id rnd (Suc k) items (tbl @ [?row])
                (item_ids @ [generate_id ''I'' (rnd k)]) = Inr (tbl', item_ids')"
    by (simp add: Let_def split: if_splits)
  from Cons.IH [OF rest] obtain new where new:
    "tbl' = (tbl @ [?row]) @ new"
    "item_ids' = (item_ids @ [generate_id ''I'' (rnd k)]) @ map it_id new"
    "length new = length items"
    "\<forall>i \<in> set new. it_request_id i = request_id \<and> it_status i = ''pending''"
    by blast
  show ?case
    by (rule exI [of _ "?row # new"]) (use new in simp)
qed

lemma create_request_cases:
  "(\<exists>e. create_request conn request u hr rnd t1 t2 = (conn, Inl e))
   \<or> (\<exists>new. generate_id ''R'' hr \<notin> req_id ` set (requests conn) \<and>
        length new = length (rc_items request) \<and>
        (\<forall>i \<in> set new. it_request_id i = generate_id ''R'' hr \<and> it_status i = ''pending'') \<and>
        create_request conn request u hr rnd t1 t2 =
          (log_audit (conn\<lparr>requests := requests conn @
                [\<lparr>req_id = generate_id ''R'' hr, req_buyer_id = userId u,
                  req_factory_id = rc_factoryId request, req_title = rc_title request,
                  req_status = ''pending'', req_created_at = t1\<rparr>],
              request_items := request_items conn @ new\<rparr>)
             t2 (userId u) (role u) CREATE_REQUEST REQUEST (generate_id ''R'' hr)
             [(''buyerId'', JStr (userId u)),
              (''factoryId'', JStr (rc_factoryId request)),
              (''title'', JStr (rc_title request)),
              (''itemCount'', JInt (int (length (rc_items request)))),
              (''items'', JList (map (\<lambda>item. JObj [(''docType'', JStr (docType item))])
                                    (rc_items request)))],
           Inr \<lparr>requestId = generate_id ''R'' hr, rc_status = ''pending'',
                itemIds = map it_id new\<rparr>))"
proof (cases "generate_id ''R'' hr \<in> req_id ` set (requests conn)")
  case True
  then show ?thesis by (simp add: create_request_def get_db_def Let_def)
next
  case fresh: False
  show ?thesis
  proof (cases "insert_items (generate_id ''R'' hr) rnd 0 (rc_items request) (request_items conn) []")
    case (Inl e)
    with fresh show ?thesis by (simp add: create_request_def get_db_def Let_def)
  next
    case (Inr p)
    obtain tbl ids where p: "p = (tbl, ids)" by (cases p)
    from insert_items_shape [OF Inr [unfolded p]] obtain new where new:
      "tbl = request_items conn @ new" "ids = map it_id new"
      "length new = length (rc_items request)"
      "\<forall>i \<in> set new. it_request_id i = generate_id ''R'' hr \<and> it_status i = ''pending''"
      by auto
    have "create_request conn request u hr rnd t1 t2 =
          (log_audit (conn\<lparr>requests := requests conn @
                [\<lparr>req_id = generate_id ''R'' hr, req_buyer_id = userId u,
                  req_factory_id = rc_factoryId request, req_title = rc_title request,
                  req_status = ''pending'', req_created_at = t1\<rparr>],
              request_items := request_items conn @ new\<rparr>)
             t2 (userId u) (role u) CREATE_REQUEST REQUEST (generate_id ''R'' hr)
             [(''buyerId'', JStr (userId u)),
              (''factoryId'', JStr (rc_factoryId request)),
              (''title'', JStr (rc_title request)),
              (''itemCount'', JInt (int (length (rc_items request)))),
              (''items'', JList (map (\<lambda>item. JObj [(''docType'', JStr (docType item))])
                                    (rc_items request)))],
           Inr \<lparr>requestId = generate_id ''R'' hr, rc_status = ''pending'',
                itemIds = map it_id new\<rparr>)"
      using fresh Inr p new(1,2) by (simp add: create_request_def get_db_def Let_def)
    with fresh new(3,4) show ?thesis by blast
  qed
qed

lemma fulfill_request_item_cases:
  "(\<exists>e. fulfill_request_item conn request_id item_id fulfill u t1 t2 = (conn, Inl e))
   \<or> (\<exists>request_row item_row evidence_row version_row.
        find (\<lambda>r. req_id r = request_id) (requests conn) = Some request_row \<and>
        Some (req_factory_id request_row) = factoryId u \<and>
        find (\<lambda>i. it_id i = item_id \<and> it_request_id i = request_id) (request_items conn)
          = Some item_row \<and>
        find (\<lambda>e. ev_id e = fr_evidenceId fulfill) (evidence conn) = Some evidence_row \<and>
        Some (ev_factory_id evidence_row) = factoryId u \<and>
        find (\<lambda>v. ver_id v = fr_versionId fulfill \<and> ver_evidence_id v = fr_evidenceId fulfill)
          (evidence_versions conn) = Some version_row \<and>
        fulfill_request_item conn request_id item_id fulfill u t1 t2 =
          (log_audit
             (conn\<lparr>request_items :=
                     update_item (request_items conn) item_id (fr_evidenceId fulfill)
                       (fr_versionId fulfill) t1,
                   requests :=
                     (let counts = count_items
                            (update_item (request_items conn) item_id (fr_evidenceId fulfill)
                               (fr_versionId fulfill) t1) request_id
                      in if Some (fst counts) = snd counts
                         then complete_request (requests conn) request_id
                         else requests conn)\<rparr>)
             t2 (userId u) (role u) FULFILL_ITEM REQUEST_ITEM item_id
             [(''factoryId'', json_opt (factoryId u)),
              (''buyerId'', JStr (req_buyer_id request_row)),
              (''requestId'', JStr request_id),
              (''docType'', JStr (it_doc_type item_row)),
              (''evidenceId'', JStr (fr_evidenceId fulfill)),
              (''versionId'', JStr (fr_versionId fulfill)),
              (''previousStatus'', JStr (it_status item_row)),
              (''newStatus'', JStr ''fulfilled'')],
           Inr \<lparr>success = True, itemId = item_id, ff_status = ''fulfilled''\<rparr>))"
  by (simp add: fulfill_request_item_def get_db_def Let_def split: option.splits)


lemma get_current_user_session:
  assumes "get_current_user conn authorization now = Inr u"
  shows "\<exists>a p tok rest row. authorization = Some a \<and> str_split_space a = p # tok # rest
           \<and> find (\<lambda>r. token r = tok) (auth_tokens conn) = Some row
           \<and> userId u = tok_user_id row \<and> role u = tok_role row
           \<and> factoryId u = tok_factory_id row"
  using assms
  by (auto simp: get_current_user_def split: option.splits if_splits list.splits)

lemma require_role_user:
  "require_role required_role conn authorization now = Inr u \<Longrightarrow>
     get_current_user conn authorization now = Inr u \<and> role u = Role_value required_role"
  by (auto simp: require_role_def split: sum.splits if_splits)

text \<open>
  A call leaves the database as it was, or is the success of one of the five handlers
  that write.
\<close>

lemma fst_get_factory_requests: "fst (get_factory_requests conn u) = conn"
  by (simp add: get_factory_requests_def get_db_def Let_def)

lemma fst_get_audit_log: "fst (get_audit_log conn limit u) = conn"
  by (simp add: get_audit_log_def get_db_def Let_def)

lemma step_cases:
  "step conn c = conn
   \<or> (\<exists>request tok t0 t1 t2 r. login conn request tok t0 t1 t2 = (step conn c, Inr r))
   \<or> (\<exists>ev u he hv t1 t2 t3 r. create_evidence conn ev u he hv t1 t2 t3 = (step conn c, Inr r))
   \<or> (\<exists>evidence_id version u hv t1 t2 r.
         add_evidence_version conn evidence_id version u hv t1 t2 = (step conn c, Inr r))
   \<or> (\<exists>request u hr rnd t1 t2 r. create_request conn request u hr rnd t1 t2 = (step conn c, Inr r))
   \<or> (\<exists>request_id item_id fulfill u t1 t2 r.
         fulfill_request_item conn request_id item_id fulfill u t1 t2 = (step conn c, Inr r))"
proof (cases c)
  case (Login request tok clock)
  show ?thesis
    using login_cases [of conn request tok "clock 0" "clock 1" "clock 2"]
    by (auto simp: Login)
next
  case (CreateEvidence authorization ev rnd clock)
  show ?thesis
  proof (cases "require_role FACTORY conn authorization (clock 0)")
    case (Inl e)
    then show ?thesis by (simp add: CreateEvidence)
  next
    case (Inr u)
    show ?thesis
      using create_evidence_cases [of conn ev u "rnd 0" "rnd 1" "clock 1" "clock 2" "clock 3"]
      by (auto simp: CreateEvidence Inr)
  qed
next
  case (AddEvidenceVersion authorization evidence_id version rnd clock)
  show ?thesis
  proof (cases "require_role FACTORY conn authorization (clock 0)")
    case (Inl e)
    then show ?thesis by (simp add: AddEvidenceVersion)
  next
    case (Inr u)
    show ?thesis
      using add_evidence_version_cases [of conn evidence_id version u "rnd 0" "clock 1" "clock 2"]
      by (auto simp: AddEvidenceVersion Inr)
  qed
next
  case (CreateRequest authorization request rnd clock)
  show ?thesis
  proof (cases "require_role BUYER conn authorization (clock 0)")
    case (Inl e)
    then show ?thesis by (simp add: CreateRequest)
  next
    case (Inr u)
    show ?thesis
      using create_request_cases [of conn request u "rnd 0" "\<lambda>k. rnd (Suc k)" "clock 1" "clock 2"]
      by (auto simp: CreateRequest Inr)
  qed
next
  case (GetFactoryRequests authorization clock)
  then show ?thesis
    by (simp add: fst_get_factory_requests split: sum.splits)
next
  case (FulfillRequestItem authorization request_id item_id fulfill clock)
  show ?thesis
  proof (cases "require_role FACTORY conn authorization (clock 0)")
    case (Inl e)
    then show ?thesis by (simp add: FulfillRequestItem)
  next
    case (Inr u)
    show ?thesis
      using fulfill_request_item_cases [of conn request_id item_id fulfill u "clock 1" "clock 2"]
      by (auto simp: FulfillRequestItem Inr)
  qed
next
  case (GetAuditLog authorization limit clock)
  then show ?thesis
    by (simp add: fst_get_audit_log split: sum.splits)
next
  case Root
  then show ?thesis by simp
qed

text \<open>
  Hence a property of the database that every successful write preserves holds along
  every sequence of calls.
\<close>

lemma step_invariant:
  assumes "P conn"
    and "\<And>request tok t0 t1 t2 conn' r.
           login conn request tok t0 t1 t2 = (conn', Inr r) \<Longrightarrow> P conn'"
    and "\<And>ev u he hv t1 t2 t3 conn' r.
           create_evidence conn ev u he hv t1 t2 t3 = (conn', Inr r) \<Longrightarrow> P conn'"
    and "\<And>evidence_id version u hv t1 t2 conn' r.
           add_evidence_version conn evidence_id version u hv t1 t2 = (conn', Inr r) \<Longrightarrow> P conn'"
    and "\<And>request u hr rnd t1 t2 conn' r.
           create_request conn request u hr rnd t1 t2 = (conn', Inr r) \<Longrightarrow> P conn'"
    and "\<And>request_id item_id fulfill u t1 t2 conn' r.
           fulfill_request_item conn request_id item_id fulfill u t1 t2 = (conn', Inr r) \<Longrightarrow> P conn'"
  shows "P (step conn c)"
  using step_cases [of conn c] assms by metis

lemma run_Nil [simp]: "run conn [] = conn"
  by (simp add: run_def)

lemma run_Cons [simp]: "run conn (c # calls) = run (step conn c) calls"
  by (simp add: run_def)

lemma run_append: "run conn (calls @ calls') = run (run conn calls) calls'"
  by (simp add: run_def)

lemma run_invariant:
  assumes "P conn" and "\<And>conn c. P conn \<Longrightarrow> P (step conn c)"
  shows "P (run conn calls)"
  using assms(1)
proof (induction calls arbitrary: conn)
  case Nil
  then show ?case by simp
next
  case (Cons c calls)
  then show ?case by (simp add: assms(2))
qed

lemma login_tables:
  assumes "login conn request tok t0 t1 t2 = (conn', Inr r)"
  shows "evidence conn' = evidence conn" "evidence_versions conn' = evidence_versions conn"
        "requests conn' = requests conn" "request_items conn' = request_items conn"
  using login_cases [of conn request tok t0 t1 t2] assms by auto

lemma create_evidence_tables:
  assumes "create_evidence conn ev u he hv t1 t2 t3 = (conn', Inr r)"
  shows "requests conn' = requests conn" "request_items conn' = request_items conn"
    "\<exists>e v. evidence conn' = evidence conn @ [e] \<and> ev_id e \<notin> ev_id ` set (evidence conn)
         \<and> ev_id e = evidenceId r
         \<and> evidence_versions conn' = evidence_versions conn @ [v]
         \<and> ver_id v = versionId r
         \<and> ver_evidence_id v = ev_id e \<and> version_number v = 1"
  using create_evidence_cases [of conn ev u he hv t1 t2 t3] assms by auto

lemma add_evidence_version_tables:
  assumes "add_evidence_version conn evidence_id version u hv t1 t2 = (conn', Inr r)"
  shows "requests conn' = requests conn" "request_items conn' = request_items conn"
    "evidence conn' = evidence conn"
    "evidence_id \<in> ev_id ` set (evidence conn)"
    "\<exists>v. evidence_versions conn' = evidence_versions conn @ [v]
         \<and> ver_id v = versionId r
         \<and> ver_evidence_id v = evidence_id
         \<and> version_number v =
             or_zero (sql_max (version_numbers_of (evidence_versions conn) evidence_id)) + 1"
  using add_evidence_version_cases [of conn evidence_id version u hv t1 t2] assms
  by (auto simp: version_numbers_of_def dest: find_SomeD)

lemma create_request_tables:
  assumes "create_request conn request u hr rnd t1 t2 = (conn', Inr r)"
  shows "evidence conn' = evidence conn" "evidence_versions conn' = evidence_versions conn"
    "\<exists>row new. requests conn' = requests conn @ [row] \<and> req_id row \<notin> req_id ` set (requests conn)
         \<and> req_id row = requestId r \<and> req_status row = ''pending''
         \<and> request_items conn' = request_items conn @ new
         \<and> length new = length (rc_items request)
         \<and> itemIds r = map it_id new
         \<and> (\<forall>i \<in> set new. it_request_id i = req_id row \<and> it_status i = ''pending'')"
proof -
  from create_request_cases [of conn request u hr rnd t1 t2] assms
  obtain new where new: "generate_id ''R'' hr \<notin> req_id ` set (requests conn)"
    "length new = length (rc_items request)"
    "\<forall>i \<in> set new. it_request_id i = generate_id ''R'' hr \<and> it_status i = ''pending''"
    "conn' = log_audit (conn\<lparr>requests := requests conn @
                [\<lparr>req_id = generate_id ''R'' hr, req_buyer_id = userId u,
                  req_factory_id = rc_factoryId request, req_title = rc_title request,
                  req_status = ''pending'', req_created_at = t1\<rparr>],
              request_items := request_items conn @ new\<rparr>)
             t2 (userId u) (role u) CREATE_REQUEST REQUEST (generate_id ''R'' hr)
             [(''buyerId'', JStr (userId u)),
              (''factoryId'', JStr (rc_factoryId request)),
              (''title'', JStr (rc_title request)),
              (''itemCount'', JInt (int (length (rc_items request)))),
              (''items'', JList (map (\<lambda>item. JObj [(''docType'', JStr (docType item))])
                                    (rc_items request)))]"
    "r = \<lparr>requestId = generate_id ''R'' hr, rc_status = ''pending'', itemIds = map it_id new\<rparr>"
    by auto
  show "evidence conn' = evidence conn" "evidence_versions conn' = evidence_versions conn"
    by (simp_all add: new(4))
  show "\<exists>row new. requests conn' = requests conn @ [row] \<and> req_id row \<notin> req_id ` set (requests conn)
         \<and> req_id row = requestId r \<and> req_status row = ''pending''
         \<and> request_items conn' = request_items conn @ new
         \<and> length new = length (rc_items request)
         \<and> itemIds r = map it_id new
         \<and> (\<forall>i \<in> set new. it_request_id i = req_id row \<and> it_status i = ''pending'')"
    by (rule exI [of _ "\<lparr>req_id = generate_id ''R'' hr, req_buyer_id = userId u,
                  req_factory_id = rc_factoryId request, req_title = rc_title request,
                  req_status = ''pending'', req_created_at = t1\<rparr>"], rule exI [of _ new])
       (use new in simp)
qed

lemma fulfill_request_item_tables:
  assumes "fulfill_request_item conn request_id item_id fulfill u t1 t2 = (conn', Inr r)"
  shows "evidence conn' = evidence conn" "evidence_versions conn' = evidence_versions conn"
    "request_items conn' =
       update_item (request_items conn) item_id (fr_evidenceId fulfill) (fr_versionId fulfill) t1"
    "requests conn' =
       (if items_complete (request_items conn') request_id
        then complete_request (requests conn) request_id else requests conn)"
    "\<exists>i \<in> set (request_items conn). it_id i = item_id \<and> it_request_id i = request_id"
    "request_id \<in> req_id ` set (requests conn)"
  using fulfill_request_item_cases [of conn request_id item_id fulfill u t1 t2] assms
  by (auto simp: items_complete_def Let_def dest: find_SomeD)

section \<open>Facts about the tables\<close>

lemma sum_indicator_le:
  "sum_list (map (\<lambda>i. if P i then (1::int) else 0) xs) \<le> int (length xs)"
  by (induction xs) auto

lemma sum_indicator_eq_length:
  "sum_list (map (\<lambda>i. if P i then (1::int) else 0) xs) = int (length xs) \<longleftrightarrow> (\<forall>x \<in> set xs. P x)"
proof (induction xs)
  case Nil
  then show ?case by simp
next
  case (Cons x xs)
  have "sum_list (map (\<lambda>i. if P i then (1::int) else 0) xs) \<le> int (length xs)"
    by (rule sum_indicator_le)
  with Cons show ?case by auto
qed

lemma items_complete_iff:
  "items_complete tbl request_id \<longleftrightarrow>
     (\<exists>i \<in> set tbl. it_request_id i = request_id)
     \<and> (\<forall>i \<in> set tbl. it_request_id i = request_id \<longrightarrow> it_status i = ''fulfilled'')"
proof -
  let ?rows = "filter (\<lambda>i. it_request_id i = request_id) tbl"
  have "items_complete tbl request_id \<longleftrightarrow>
          ?rows \<noteq> [] \<and> sum_list (map (\<lambda>i. if it_status i = ''fulfilled'' then 1 else 0) ?rows)
                          = int (length ?rows)"
    by (auto simp: items_complete_def count_items_def Let_def)
  also have "\<dots> \<longleftrightarrow> ?rows \<noteq> [] \<and> (\<forall>i \<in> set ?rows. it_status i = ''fulfilled'')"
    by (simp only: sum_indicator_eq_length)
  also have "\<dots> \<longleftrightarrow> (\<exists>i \<in> set tbl. it_request_id i = request_id)
     \<and> (\<forall>i \<in> set tbl. it_request_id i = request_id \<longrightarrow> it_status i = ''fulfilled'')"
    by (auto simp: filter_empty_conv)
  finally show ?thesis .
qed

lemma find_map_key:
  assumes "\<And>x. P (f x) = P x"
  shows "find P (map f xs) = map_option f (find P xs)"
  by (induction xs) (simp_all add: assms)

lemma find_append_Some: "find P xs = Some x \<Longrightarrow> find P (xs @ ys) = Some x"
  by (induction xs) (auto split: if_splits)

lemma find_append_None: "find P xs = None \<Longrightarrow> find P (xs @ ys) = find P ys"
  by (induction xs) (auto split: if_splits)

lemma find_update_item:
  "find (\<lambda>i. it_id i = k) (update_item tbl item_id evidence_id version_id now) =
     map_option (\<lambda>i. if it_id i = item_id then
                        i\<lparr>it_status := ''fulfilled'', it_evidence_id := Some evidence_id,
                          it_version_id := Some version_id, fulfilled_at := Some now\<rparr>
                      else i)
       (find (\<lambda>i. it_id i = k) tbl)"
  unfolding update_item_def by (rule find_map_key) simp

lemma find_complete_request:
  "find (\<lambda>r. req_id r = k) (complete_request tbl request_id) =
     map_option (\<lambda>r. if req_id r = request_id then r\<lparr>req_status := ''completed''\<rparr> else r)
       (find (\<lambda>r. req_id r = k) tbl)"
  unfolding complete_request_def by (rule find_map_key) simp

lemma update_item_row:
  "x \<in> set (update_item tbl item_id evidence_id version_id now) \<Longrightarrow>
     \<exists>y \<in> set tbl. it_id x = it_id y \<and> it_request_id x = it_request_id y
        \<and> (it_status x = ''fulfilled'' \<or> x = y)"
  by (auto simp: update_item_def)

lemma update_item_request_ids:
  "it_request_id ` set (update_item tbl item_id evidence_id version_id now) = it_request_id ` set tbl"
proof -
  have "map it_request_id (update_item tbl item_id evidence_id version_id now) = map it_request_id tbl"
    by (induction tbl) (simp_all add: update_item_def)
  then have "set (map it_request_id (update_item tbl item_id evidence_id version_id now))
               = set (map it_request_id tbl)"
    by simp
  then show ?thesis by simp
qed

lemma complete_request_row:
  "x \<in> set (complete_request tbl request_id) \<Longrightarrow>
     \<exists>y \<in> set tbl. req_id x = req_id y
        \<and> (if req_id y = request_id then req_status x = ''completed'' else x = y)"
  by (auto simp: complete_request_def)

lemma complete_request_ids:
  "req_id ` set (complete_request tbl request_id) = req_id ` set tbl"
proof -
  have "map req_id (complete_request tbl request_id) = map req_id tbl"
    by (induction tbl) (simp_all add: complete_request_def)
  then have "set (map req_id (complete_request tbl request_id)) = set (map req_id tbl)"
    by simp
  then show ?thesis by simp
qed

section \<open>Session tokens\<close>

text \<open>
  C6 (as amended). A session on record resolves while the clock has not passed its
  \<open>expires_at\<close>, the expiry instant included, and fails with 401 "Token expired" once
  the clock is strictly later: the test of \<open>get_current_user\<close> is
  \<open>expires_at < utcnow()\<close>.
\<close>

theorem get_current_user_expiry:
  assumes "find (\<lambda>r. token r = tok) (auth_tokens conn) = Some row"
      and "CHR '' '' \<notin> set tok"
  shows "get_current_user conn (Some (''Bearer '' @ tok)) now =
           (if now \<le> expires_at row
            then Inr \<lparr>userId = tok_user_id row, role = tok_role row,
                      factoryId = tok_factory_id row\<rparr>
            else Inl (HTTPException 401 ''Token expired''))"
  using assms
  by (simp add: get_current_user_def str_split_space_no_space startswith_def)

theorem get_current_user_expiry_witness:
  "get_current_user example_db (Some ''Bearer tokF1'') 86399999999 = Inr factory_user1
   \<and> get_current_user example_db (Some ''Bearer tokF1'') 86400000001 =
       Inl (HTTPException 401 ''Token expired'')"
proof -
  let ?row = "\<lparr>token = ''tokF1'', tok_user_id = ''factory_user1'', tok_role = ''factory'',
               tok_factory_id = Some ''F001'', tok_created_at = 0, expires_at = 86400000000\<rparr>"
  have found: "find (\<lambda>r. token r = ''tokF1'') (auth_tokens example_db) = Some ?row"
    by (simp add: example_db_def)
  have no_space: "CHR '' '' \<notin> set ''tokF1''"
    by simp
  show ?thesis
    using get_current_user_expiry [OF found no_space, of 86399999999]
          get_current_user_expiry [OF found no_space, of 86400000001]
    by (simp add: factory_user1_def)
qed

text \<open>
  C6 as stated fails at the boundary: at the expiry instant itself the session of
  \<open>factory_user1\<close> still resolves.
\<close>

theorem get_current_user_at_expiry_instant:
  "get_current_user example_db (Some ''Bearer tokF1'') 86400000000 = Inr factory_user1"
  by (simp add: get_current_user_def example_db_def startswith_def factory_user1_def)

section \<open>Fulfilling a request item: the validation chain\<close>

text \<open>
  C5. When one of the checks of \<open>fulfill_request_item\<close> fails (the request is missing
  or belongs to another factory, the item is missing under that request, the evidence is
  missing or belongs to another factory, the version is missing under that evidence), the
  call raises and the database it leaves is the database it found: item, request status
  and audit log included.
\<close>

theorem fulfill_atomic:
  assumes "(\<forall>r \<in> set (requests conn). req_id r \<noteq> request_id)
         \<or> (\<exists>r. find (\<lambda>r. req_id r = request_id) (requests conn) = Some r
                \<and> Some (req_factory_id r) \<noteq> factoryId u)
         \<or> (\<forall>i \<in> set (request_items conn). \<not> (it_id i = item_id \<and> it_request_id i = request_id))
         \<or> (\<forall>e \<in> set (evidence conn). ev_id e \<noteq> fr_evidenceId fulfill)
         \<or> (\<exists>e. find (\<lambda>e. ev_id e = fr_evidenceId fulfill) (evidence conn) = Some e
                \<and> Some (ev_factory_id e) \<noteq> factoryId u)
         \<or> (\<forall>v \<in> set (evidence_versions conn).
               \<not> (ver_id v = fr_versionId fulfill \<and> ver_evidence_id v = fr_evidenceId fulfill))"
  shows "\<exists>e. fulfill_request_item conn request_id item_id fulfill u now_f now_audit = (conn, Inl e)"
  using assms
  by (auto simp: fulfill_request_item_def get_db_def Let_def split: option.splits
           dest: find_SomeD)

theorem fulfill_atomic_witness:
  "\<exists>e. fulfill_request_item example_db ''R00000001'' ''I0000000A''
         \<lparr>fr_evidenceId = ''E0A1B2C3D'', fr_versionId = ''V0000BBBB''\<rparr>
         factory_user1 50 51 = (example_db, Inl e)"
proof -
  have missing: "\<forall>v \<in> set (evidence_versions example_db).
      \<not> (ver_id v = fr_versionId \<lparr>fr_evidenceId = ''E0A1B2C3D'', fr_versionId = ''V0000BBBB''\<rparr>
         \<and> ver_evidence_id v = fr_evidenceId \<lparr>fr_evidenceId = ''E0A1B2C3D'', fr_versionId = ''V0000BBBB''\<rparr>)"
    by (simp add: example_db_def)
  show ?thesis
    by (rule fulfill_atomic) (use missing in blast)
qed

text \<open>
  C7. The checks of \<open>fulfill_request_item\<close> run in a fixed order and the first one that
  fails decides the exception, whatever the later ones would say: request missing (404),
  request of another factory (403), item missing under the request (404), evidence
  missing (404), evidence of another factory (403), version missing under the evidence
  (404); each with its own detail text. When all pass the call succeeds. Here \<open>r\<close> and
  \<open>e\<close> are the rows that the request and evidence queries return.
\<close>

theorem fulfill_validation_order:
  "(let result = snd (fulfill_request_item conn request_id item_id fulfill u now_f now_audit);
        request_found = (find (\<lambda>r. req_id r = request_id) (requests conn) = Some r);
        request_owned = (Some (req_factory_id r) = factoryId u);
        item_found = (\<exists>i \<in> set (request_items conn). it_id i = item_id \<and> it_request_id i = request_id);
        evidence_found = (find (\<lambda>e. ev_id e = fr_evidenceId fulfill) (evidence conn) = Some e);
        evidence_owned = (Some (ev_factory_id e) = factoryId u);
        version_found = (\<exists>v \<in> set (evidence_versions conn).
                           ver_id v = fr_versionId fulfill \<and> ver_evidence_id v = fr_evidenceId fulfill)
    in ((\<forall>r \<in> set (requests conn). req_id r \<noteq> request_id) \<longrightarrow>
          result = Inl (HTTPException 404 ''Request not found''))
     \<and> (request_found \<and> \<not> request_owned \<longrightarrow>
          result = Inl (HTTPException 403 ''Cannot fulfill other factory's requests''))
     \<and> (request_found \<and> request_owned \<and> \<not> item_found \<longrightarrow>
          result = Inl (HTTPException 404 ''Request item not found''))
     \<and> (request_found \<and> request_owned \<and> item_found
          \<and> (\<forall>e \<in> set (evidence conn). ev_id e \<noteq> fr_evidenceId fulfill) \<longrightarrow>
          result = Inl (HTTPException 404 ''Evidence not found''))
     \<and> (request_found \<and> request_owned \<and> item_found \<and> evidence_found \<and> \<not> evidence_owned \<longrightarrow>
          result = Inl (HTTPException 403 ''Cannot use other factory's evidence''))
     \<and> (request_found \<and> request_owned \<and> item_found \<and> evidence_found \<and> evidence_owned
          \<and> \<not> version_found \<longrightarrow>
          result = Inl (HTTPException 404 ''Evidence version not found''))
     \<and> (request_found \<and> request_owned \<and> item_found \<and> evidence_found \<and> evidence_owned
          \<and> version_found \<longrightarrow>
          result = Inr \<lparr>success = True, itemId = item_id, ff_status = ''fulfilled''\<rparr>))"
  unfolding Let_def
  by (auto simp: fulfill_request_item_def get_db_def Let_def find_None_iff
           split: option.splits dest: find_SomeD)

theorem fulfill_validation_order_witness:
  "snd (fulfill_request_item example_db ''RFFFFFFFF'' ''I0000000A''
          \<lparr>fr_evidenceId = ''E11223344'', fr_versionId = ''V0000AAAA''\<rparr> factory_user2 50 51)
     = Inl (HTTPException 404 ''Request not found'')
   \<and> snd (fulfill_request_item example_db ''R00000001'' ''IFFFFFFFF''
          \<lparr>fr_evidenceId = ''EFFFFFFFF'', fr_versionId = ''VFFFFFFFF''\<rparr> factory_user2 50 51)
     = Inl (HTTPException 403 ''Cannot fulfill other factory's requests'')
   \<and> snd (fulfill_request_item example_db ''R00000001'' ''I0000000C''
          \<lparr>fr_evidenceId = ''E11223344'', fr_versionId = ''VFFFFFFFF''\<rparr> factory_user1 50 51)
     = Inl (HTTPException 404 ''Request item not found'')
   \<and> snd (fulfill_request_item example_db ''R00000001'' ''I0000000A''
          \<lparr>fr_evidenceId = ''EFFFFFFFF'', fr_versionId = ''V0000AAAA''\<rparr> factory_user1 50 51)
     = Inl (HTTPException 404 ''Evidence not found'')
   \<and> snd (fulfill_request_item example_db ''R00000001'' ''I0000000A''
          \<lparr>fr_evidenceId = ''E11223344'', fr_versionId = ''VFFFFFFFF''\<rparr> factory_user1 50 51)
     = Inl (HTTPException 403 ''Cannot use other factory's evidence'')
   \<and> snd (fulfill_request_item example_db ''R00000001'' ''I0000000A''
          \<lparr>fr_evidenceId = ''E0A1B2C3D'', fr_versionId = ''V0000BBBB''\<rparr> factory_user1 50 51)
     = Inl (HTTPException 404 ''Evidence version not found'')
   \<and> snd (fulfill_request_item example_db ''R00000001'' ''I0000000A''
          \<lparr>fr_evidenceId = ''E0A1B2C3D'', fr_versionId = ''V0000AAAA''\<rparr> factory_user1 50 51)
     = Inr \<lparr>success = True, itemId = ''I0000000A'', ff_status = ''fulfilled''\<rparr>"
proof -
  let ?r1 = "\<lparr>req_id = ''R00000001'', req_buyer_id = ''buyer1'', req_factory_id = ''F001'',
              req_title = ''Q1 Compliance'', req_status = ''pending'', req_created_at = 30\<rparr>"
  let ?e1 = "\<lparr>ev_id = ''E0A1B2C3D'', ev_factory_id = ''F001'', ev_name = ''Safety Test Report'',
              ev_doc_type = ''Test Report'', ev_created_at = 10\<rparr>"
  let ?e2 = "\<lparr>ev_id = ''E11223344'', ev_factory_id = ''F002'', ev_name = ''Certificate'',
              ev_doc_type = ''ISO Certificate'', ev_created_at = 20\<rparr>"
  note defs = example_db_def factory_user1_def factory_user2_def
  show ?thesis
    using fulfill_validation_order [of example_db "''RFFFFFFFF''" "''I0000000A''"
            "\<lparr>fr_evidenceId = ''E11223344'', fr_versionId = ''V0000AAAA''\<rparr>" factory_user2 50 51 ?r1 ?e1]
          fulfill_validation_order [of example_db "''R00000001''" "''IFFFFFFFF''"
            "\<lparr>fr_evidenceId = ''EFFFFFFFF'', fr_versionId = ''VFFFFFFFF''\<rparr>" factory_user2 50 51 ?r1 ?e1]
          fulfill_validation_order [of example_db "''R00000001''" "''I0000000C''"
            "\<lparr>fr_evidenceId = ''E11223344'', fr_versionId = ''VFFFFFFFF''\<rparr>" factory_user1 50 51 ?r1 ?e1]
          fulfill_validation_order [of example_db "''R00000001''" "''I0000000A''"
            "\<lparr>fr_evidenceId = ''EFFFFFFFF'', fr_versionId = ''V0000AAAA''\<rparr>" factory_user1 50 51 ?r1 ?e1]
          fulfill_validation_order [of example_db "''R00000001''" "''I0000000A''"
            "\<lparr>fr_evidenceId = ''E11223344'', fr_versionId = ''VFFFFFFFF''\<rparr>" factory_user1 50 51 ?r1 ?e2]
          fulfill_validation_order [of example_db "''R00000001''" "''I0000000A''"
            "\<lparr>fr_evidenceId = ''E0A1B2C3D'', fr_versionId = ''V0000BBBB''\<rparr>" factory_user1 50 51 ?r1 ?e1]
          fulfill_validation_order [of example_db "''R00000001''" "''I0000000A''"
            "\<lparr>fr_evidenceId = ''E0A1B2C3D'', fr_versionId = ''V0000AAAA''\<rparr>" factory_user1 50 51 ?r1 ?e1]
    unfolding Let_def
    by (simp add: defs)
qed

section \<open>Ownership\<close>

text \<open>
  C10. The \<open>factory_id\<close> of the row that \<open>create_evidence\<close> inserts is the
  \<open>factory_id\<close> of the session row that the call's bearer token resolves to; the body
  (\<open>EvidenceCreate\<close>: name, docType, expiry, notes) has no field that could name a
  factory.
\<close>

theorem create_evidence_owner_is_session_factory:
  assumes "require_role FACTORY conn authorization now = Inr u"
      and "create_evidence conn ev u he hv t1 t2 t3 = (conn', Inr resp)"
  shows "\<exists>a p tok rest row e.
           authorization = Some a \<and> str_split_space a = p # tok # rest
           \<and> find (\<lambda>r. token r = tok) (auth_tokens conn) = Some row
           \<and> evidence conn' = evidence conn @ [e]
           \<and> ev_id e = evidenceId resp
           \<and> Some (ev_factory_id e) = tok_factory_id row"
proof -
  from require_role_user [OF assms(1)] get_current_user_session
  obtain a p tok rest row where session:
    "authorization = Some a" "str_split_space a = p # tok # rest"
    "find (\<lambda>r. token r = tok) (auth_tokens conn) = Some row"
    "factoryId u = tok_factory_id row"
    by blast
  from create_evidence_cases [of conn ev u he hv t1 t2 t3] assms(2)
  obtain fid where ok: "factoryId u = Some fid"
    "evidence conn' = evidence conn @
       [\<lparr>ev_id = generate_id ''E'' he, ev_factory_id = fid, ev_name = ec_name ev,
         ev_doc_type = ec_docType ev, ev_created_at = t1\<rparr>]"
    "evidenceId resp = generate_id ''E'' he"
    by auto
  show ?thesis
    using session ok by auto
qed

theorem create_evidence_owner_is_session_factory_witness:
  "\<exists>e. evidence (fst (create_evidence example_db
            \<lparr>ec_name = ''Audit Report'', ec_docType = ''Report'', ec_expiry = None,
             ec_notes = Some ''Factory 1''\<rparr> factory_user1 ''9999AAAA'' ''9999BBBB'' 60 61 62))
         = evidence example_db @ [e]
       \<and> ev_id e = ''E9999AAAA'' \<and> ev_factory_id e = ''F001''"
proof -
  let ?ev = "\<lparr>ec_name = ''Audit Report'', ec_docType = ''Report'', ec_expiry = None,
              ec_notes = Some ''Factory 1''\<rparr>"
  let ?call = "create_evidence example_db ?ev factory_user1 ''9999AAAA'' ''9999BBBB'' 60 61 62"
  have auth: "require_role FACTORY example_db (Some ''Bearer tokF1'') 59 = Inr factory_user1"
    by (simp add: require_role_def get_current_user_def example_db_def startswith_def
          factory_user1_def)
  have ran: "?call = (fst ?call, Inr \<lparr>evidenceId = ''E9999AAAA'', versionId = ''V9999BBBB''\<rparr>)"
    by (simp add: create_evidence_def get_db_def example_db_def factory_user1_def
          generate_id_def Let_def)
  from create_evidence_owner_is_session_factory [OF auth ran]
  show ?thesis
    by (auto simp: example_db_def)
qed

text \<open>
  C4 (as amended). A factory identity bound to \<open>f2\<close> gets 403 from
  \<open>add_evidence_version\<close> on evidence of another factory \<open>f1\<close> and from
  \<open>fulfill_request_item\<close> on a request of \<open>f1\<close>. A \<open>fulfill_request_item\<close> that
  names evidence of \<open>f1\<close> never succeeds and changes nothing; its exception is the 403 of
  the evidence check when the request and item checks pass, and the exception of the
  earlier check otherwise. The listing for \<open>f2\<close> holds no request of \<open>f1\<close>.
\<close>

theorem cross_factory_isolation:
  assumes "f1 \<noteq> f2" and "factoryId u = Some f2"
  shows "(find (\<lambda>e. ev_id e = evidence_id) (evidence conn) = Some e1 \<and> ev_factory_id e1 = f1 \<longrightarrow>
            add_evidence_version conn evidence_id version u hv t1 t2 =
              (conn, Inl (HTTPException 403 ''Cannot add version to other factory's evidence'')))
       \<and> (find (\<lambda>r. req_id r = request_id) (requests conn) = Some r1 \<and> req_factory_id r1 = f1 \<longrightarrow>
            fulfill_request_item conn request_id item_id fulfill u t1 t2 =
              (conn, Inl (HTTPException 403 ''Cannot fulfill other factory's requests'')))
       \<and> (find (\<lambda>e. ev_id e = fr_evidenceId fulfill) (evidence conn) = Some e1 \<and> ev_factory_id e1 = f1 \<longrightarrow>
            fulfill_request_item conn request_id item_id fulfill u t1 t2 \<in>
              {(conn, Inl (HTTPException 404 ''Request not found'')),
               (conn, Inl (HTTPException 403 ''Cannot fulfill other factory's requests'')),
               (conn, Inl (HTTPException 404 ''Request item not found'')),
               (conn, Inl (HTTPException 403 ''Cannot use other factory's evidence''))}
            \<and> (find (\<lambda>r. req_id r = request_id) (requests conn) = Some r2
                 \<and> req_factory_id r2 = f2
                 \<and> (\<exists>i \<in> set (request_items conn). it_id i = item_id \<and> it_request_id i = request_id) \<longrightarrow>
                fulfill_request_item conn request_id item_id fulfill u t1 t2 =
                  (conn, Inl (HTTPException 403 ''Cannot use other factory's evidence''))))
       \<and> (\<exists>listing. get_factory_requests conn u = (conn, Inr listing)
             \<and> f1 \<notin> rl_factoryId ` set listing)"
proof (intro conjI impI)
  assume "find (\<lambda>e. ev_id e = evidence_id) (evidence conn) = Some e1 \<and> ev_factory_id e1 = f1"
  with assms show "add_evidence_version conn evidence_id version u hv t1 t2 =
      (conn, Inl (HTTPException 403 ''Cannot add version to other factory's evidence''))"
    by (simp add: add_evidence_version_def get_db_def)
next
  assume "find (\<lambda>r. req_id r = request_id) (requests conn) = Some r1 \<and> req_factory_id r1 = f1"
  with assms show "fulfill_request_item conn request_id item_id fulfill u t1 t2 =
      (conn, Inl (HTTPException 403 ''Cannot fulfill other factory's requests''))"
    by (simp add: fulfill_request_item_def get_db_def)
next
  assume "find (\<lambda>e. ev_id e = fr_evidenceId fulfill) (evidence conn) = Some e1 \<and> ev_factory_id e1 = f1"
  with assms show "fulfill_request_item conn request_id item_id fulfill u t1 t2 \<in>
              {(conn, Inl (HTTPException 404 ''Request not found'')),
               (conn, Inl (HTTPException 403 ''Cannot fulfill other factory's requests'')),
               (conn, Inl (HTTPException 404 ''Request item not found'')),
               (conn, Inl (HTTPException 403 ''Cannot use other factory's evidence''))}"
    by (simp add: fulfill_request_item_def get_db_def split: option.splits)
next
  assume ev: "find (\<lambda>e. ev_id e = fr_evidenceId fulfill) (evidence conn) = Some e1 \<and> ev_factory_id e1 = f1"
    and rq: "find (\<lambda>r. req_id r = request_id) (requests conn) = Some r2 \<and> req_factory_id r2 = f2
         \<and> (\<exists>i \<in> set (request_items conn). it_id i = item_id \<and> it_request_id i = request_id)"
  then have "find (\<lambda>i. it_id i = item_id \<and> it_request_id i = request_id) (request_items conn) \<noteq> None"
    by (auto simp: find_None_iff)
  with ev rq assms show "fulfill_request_item conn request_id item_id fulfill u t1 t2 =
      (conn, Inl (HTTPException 403 ''Cannot use other factory's evidence''))"
    by (auto simp: fulfill_request_item_def get_db_def split: option.splits)
next
  from assms show "\<exists>listing. get_factory_requests conn u = (conn, Inr listing)
             \<and> f1 \<notin> rl_factoryId ` set listing"
    by (auto simp: get_factory_requests_def get_db_def Let_def)
qed

theorem cross_factory_isolation_witness:
  "add_evidence_version example_db ''E0A1B2C3D'' \<lparr>vc_notes = Some ''Unauthorized version'', vc_expiry = None\<rparr>
      factory_user2 ''0000CCCC'' 50 51 =
     (example_db, Inl (HTTPException 403 ''Cannot add version to other factory's evidence''))
   \<and> fulfill_request_item example_db ''R00000001'' ''I0000000A''
        \<lparr>fr_evidenceId = ''E11223344'', fr_versionId = ''V0000BBBB''\<rparr> factory_user2 50 51 =
       (example_db, Inl (HTTPException 403 ''Cannot fulfill other factory's requests''))
   \<and> fulfill_request_item example_db ''R00000002'' ''I0000000C''
        \<lparr>fr_evidenceId = ''E0A1B2C3D'', fr_versionId = ''V0000AAAA''\<rparr> factory_user2 50 51 =
       (example_db, Inl (HTTPException 403 ''Cannot use other factory's evidence''))
   \<and> (\<exists>listing. get_factory_requests example_db factory_user2 = (example_db, Inr listing)
         \<and> ''F001'' \<notin> rl_factoryId ` set listing)"
proof -
  let ?e1 = "\<lparr>ev_id = ''E0A1B2C3D'', ev_factory_id = ''F001'', ev_name = ''Safety Test Report'',
              ev_doc_type = ''Test Report'', ev_created_at = 10\<rparr>"
  let ?r1 = "\<lparr>req_id = ''R00000001'', req_buyer_id = ''buyer1'', req_factory_id = ''F001'',
              req_title = ''Q1 Compliance'', req_status = ''pending'', req_created_at = 30\<rparr>"
  let ?r2 = "\<lparr>req_id = ''R00000002'', req_buyer_id = ''buyer1'', req_factory_id = ''F002'',
              req_title = ''Q2 Compliance'', req_status = ''pending'', req_created_at = 40\<rparr>"
  have distinct: "''F001'' \<noteq> ''F002''" by simp
  have bound: "factoryId factory_user2 = Some ''F002''" by (simp add: factory_user2_def)
  note iso = cross_factory_isolation [OF distinct bound, where conn = example_db and ?e1.0 = ?e1]
  show ?thesis
    using iso [where evidence_id = "''E0A1B2C3D''" and request_id = "''R00000001''"
                 and ?r1.0 = ?r1 and ?r2.0 = ?r2 and item_id = "''I0000000A''"
                 and fulfill = "\<lparr>fr_evidenceId = ''E11223344'', fr_versionId = ''V0000BBBB''\<rparr>"
                 and version = "\<lparr>vc_notes = Some ''Unauthorized version'', vc_expiry = None\<rparr>"
                 and hv = "''0000CCCC''" and ?t1.0 = 50 and ?t2.0 = 51]
          iso [where evidence_id = "''E0A1B2C3D''" and request_id = "''R00000002''"
                 and ?r1.0 = ?r1 and ?r2.0 = ?r2 and item_id = "''I0000000C''"
                 and fulfill = "\<lparr>fr_evidenceId = ''E0A1B2C3D'', fr_versionId = ''V0000AAAA''\<rparr>"
                 and version = "\<lparr>vc_notes = Some ''Unauthorized version'', vc_expiry = None\<rparr>"
                 and hv = "''0000CCCC''" and ?t1.0 = 50 and ?t2.0 = 51]
    by (simp add: example_db_def)
qed

text \<open>
  C4 as stated fails for \<open>fulfill_request_item\<close> naming foreign evidence: F002 names
  evidence of F001 for an item that is not under its request, and gets 404, not 403.
\<close>

theorem fulfill_foreign_evidence_item_not_found:
  "fulfill_request_item example_db ''R00000002'' ''I0000000A''
     \<lparr>fr_evidenceId = ''E0A1B2C3D'', fr_versionId = ''V0000AAAA''\<rparr> factory_user2 50 51 =
     (example_db, Inl (HTTPException 404 ''Request item not found''))"
  by (simp add: fulfill_request_item_def get_db_def example_db_def factory_user2_def)


section \<open>Item and request status\<close>

lemma item_fulfilled_step:
  assumes "item_fulfilled conn k"
  shows "item_fulfilled (step conn c) k"
proof (rule step_invariant [where P = "\<lambda>conn. item_fulfilled conn k"])
  show "item_fulfilled conn k" by fact
next
  fix request tok t0 t1 t2 conn' r
  assume "login conn request tok t0 t1 t2 = (conn', Inr r)"
  from login_tables(4) [OF this] assms show "item_fulfilled conn' k"
    by (simp add: item_fulfilled_def)
next
  fix ev u he hv t1 t2 t3 conn' r
  assume "create_evidence conn ev u he hv t1 t2 t3 = (conn', Inr r)"
  from create_evidence_tables(2) [OF this] assms show "item_fulfilled conn' k"
    by (simp add: item_fulfilled_def)
next
  fix evidence_id version u hv t1 t2 conn' r
  assume "add_evidence_version conn evidence_id version u hv t1 t2 = (conn', Inr r)"
  from add_evidence_version_tables(2) [OF this] assms show "item_fulfilled conn' k"
    by (simp add: item_fulfilled_def)
next
  fix request u hr rnd t1 t2 conn' r
  assume "create_request conn request u hr rnd t1 t2 = (conn', Inr r)"
  from create_request_tables(3) [OF this] obtain new
    where "request_items conn' = request_items conn @ new" by blast
  with assms show "item_fulfilled conn' k"
    by (auto simp: item_fulfilled_def find_append_Some split: option.splits)
next
  fix request_id item_id fulfill u t1 t2 conn' r
  assume "fulfill_request_item conn request_id item_id fulfill u t1 t2 = (conn', Inr r)"
  from fulfill_request_item_tables(3) [OF this] assms show "item_fulfilled conn' k"
    by (auto simp: item_fulfilled_def find_update_item split: option.splits)
qed

lemma item_fulfilled_run: "item_fulfilled conn k \<Longrightarrow> item_fulfilled (run conn calls) k"
  by (rule run_invariant [where P = "\<lambda>conn. item_fulfilled conn k"]) (simp_all add: item_fulfilled_step)


lemma fulfilled_once_items:
  "request_items fulfilled_once =
     [\<lparr>it_id = ''I0000000A'', it_request_id = ''R00000001'', it_doc_type = ''Test Report'',
       it_status = ''fulfilled'', it_evidence_id = Some ''E0A1B2C3D'',
       it_version_id = Some ''V0000AAAA'', fulfilled_at = Some 50\<rparr>,
      \<lparr>it_id = ''I0000000B'', it_request_id = ''R00000001'', it_doc_type = ''Certificate'',
       it_status = ''pending'', it_evidence_id = None, it_version_id = None,
       fulfilled_at = None\<rparr>,
      \<lparr>it_id = ''I0000000C'', it_request_id = ''R00000002'', it_doc_type = ''Certificate'',
       it_status = ''pending'', it_evidence_id = None, it_version_id = None,
       fulfilled_at = None\<rparr>]"
  by (simp add: fulfilled_once_def fulfill_request_item_def get_db_def example_db_def
        factory_user1_def update_item_def count_items_def complete_request_def Let_def)

lemma fulfilled_once_other_tables:
  "requests fulfilled_once = requests example_db"
  "evidence fulfilled_once = evidence example_db"
  "evidence_versions fulfilled_once = evidence_versions example_db"
  by (simp_all add: fulfilled_once_def fulfill_request_item_def get_db_def example_db_def
        factory_user1_def update_item_def count_items_def complete_request_def Let_def)

text \<open>
  C1 (as amended). No sequence of calls un-fulfills an item: an item on record as
  fulfilled stays so. \<open>fulfill_request_item\<close> does not look at the item's previous
  status (it only copies it into the audit metadata), so every successful call, a second
  one on a fulfilled item included, leaves the item fulfilled with the evidence id, the
  version id and the time of that call.
\<close>

theorem fulfilled_items_stay_fulfilled:
  "(item_fulfilled conn k \<longrightarrow> item_fulfilled (run conn calls) k)
   \<and> (fulfill_request_item conn request_id item_id fulfill u t1 t2 = (conn', Inr r) \<longrightarrow>
        (\<exists>i. find (\<lambda>i. it_id i = item_id) (request_items conn') = Some i
            \<and> it_status i = ''fulfilled''
            \<and> it_evidence_id i = Some (fr_evidenceId fulfill)
            \<and> it_version_id i = Some (fr_versionId fulfill)
            \<and> fulfilled_at i = Some t1))"
proof (intro conjI impI)
  assume "item_fulfilled conn k"
  then show "item_fulfilled (run conn calls) k" by (rule item_fulfilled_run)
next
  assume ok: "fulfill_request_item conn request_id item_id fulfill u t1 t2 = (conn', Inr r)"
  from fulfill_request_item_tables(5) [OF ok]
  have "find (\<lambda>i. it_id i = item_id) (request_items conn) \<noteq> None"
    by (auto simp: find_None_iff)
  then obtain y where y: "find (\<lambda>i. it_id i = item_id) (request_items conn) = Some y"
    by blast
  then have "it_id y = item_id" by (auto dest: find_SomeD)
  with y fulfill_request_item_tables(3) [OF ok]
  show "\<exists>i. find (\<lambda>i. it_id i = item_id) (request_items conn') = Some i
            \<and> it_status i = ''fulfilled''
            \<and> it_evidence_id i = Some (fr_evidenceId fulfill)
            \<and> it_version_id i = Some (fr_versionId fulfill)
            \<and> fulfilled_at i = Some t1"
    by (simp add: find_update_item)
qed

theorem fulfilled_items_stay_fulfilled_witness:
  "item_fulfilled (run fulfilled_once
       [FulfillRequestItem (Some ''Bearer tokF1'') ''R00000001'' ''I0000000A''
          \<lparr>fr_evidenceId = ''E0A1B2C3D'', fr_versionId = ''V0000CCCC''\<rparr> (\<lambda>k. 60 + int k),
        Root]) ''I0000000A''
   \<and> (\<exists>i. find (\<lambda>i. it_id i = ''I0000000A'') (request_items fulfilled_twice) = Some i
          \<and> it_status i = ''fulfilled''
          \<and> it_evidence_id i = Some ''E0A1B2C3D''
          \<and> it_version_id i = Some ''V0000CCCC''
          \<and> fulfilled_at i = Some 60)"
proof -
  let ?f = "\<lparr>fr_evidenceId = ''E0A1B2C3D'', fr_versionId = ''V0000CCCC''\<rparr>"
  have already: "item_fulfilled fulfilled_once ''I0000000A''"
    by (simp add: item_fulfilled_def fulfilled_once_items)
  have again: "fulfill_request_item fulfilled_once ''R00000001'' ''I0000000A'' ?f factory_user1 60 61
      = (fulfilled_twice, Inr \<lparr>success = True, itemId = ''I0000000A'', ff_status = ''fulfilled''\<rparr>)"
    by (simp add: fulfilled_twice_def fulfill_request_item_def get_db_def fulfilled_once_items
        fulfilled_once_other_tables example_db_def factory_user1_def Let_def)
  show ?thesis
    using fulfilled_items_stay_fulfilled [of fulfilled_once "''I0000000A''"
            "[FulfillRequestItem (Some ''Bearer tokF1'') ''R00000001'' ''I0000000A'' ?f (\<lambda>k. 60 + int k), Root]"
            "''R00000001''" "''I0000000A''" ?f factory_user1 60 61 fulfilled_twice
            "\<lparr>success = True, itemId = ''I0000000A'', ff_status = ''fulfilled''\<rparr>"]
          already again
    by simp
qed

text \<open>
  C1 as stated fails: the second fulfilment of I0000000A succeeds and replaces the
  recorded version id and fulfilment time.
\<close>

theorem refulfill_overwrites:
  "map (\<lambda>i. (it_status i, it_evidence_id i, it_version_id i, fulfilled_at i))
       (filter (\<lambda>i. it_id i = ''I0000000A'') (request_items fulfilled_once))
     = [(''fulfilled'', Some ''E0A1B2C3D'', Some ''V0000AAAA'', Some 50)]
   \<and> snd (fulfill_request_item fulfilled_once ''R00000001'' ''I0000000A''
            \<lparr>fr_evidenceId = ''E0A1B2C3D'', fr_versionId = ''V0000CCCC''\<rparr> factory_user1 60 61)
     = Inr \<lparr>success = True, itemId = ''I0000000A'', ff_status = ''fulfilled''\<rparr>
   \<and> map (\<lambda>i. (it_status i, it_evidence_id i, it_version_id i, fulfilled_at i))
       (filter (\<lambda>i. it_id i = ''I0000000A'') (request_items fulfilled_twice))
     = [(''fulfilled'', Some ''E0A1B2C3D'', Some ''V0000CCCC'', Some 60)]"
  by (simp add: fulfilled_twice_def fulfill_request_item_def get_db_def fulfilled_once_items
        fulfilled_once_other_tables example_db_def
        factory_user1_def update_item_def count_items_def complete_request_def Let_def)


text \<open>The example run, evaluated.\<close>

lemmas eval_defs = run_def init_db_def login_def get_db_def
      log_audit_def next_audit_id_def require_role_def get_current_user_def startswith_def
      create_request_def create_evidence_def add_evidence_version_def generate_id_def Let_def
      fulfill_request_item_def update_item_def count_items_def complete_request_def

lemma example_state_tables:
  "requests example_state =
     [\<lparr>req_id = ''R00000001'', req_buyer_id = ''buyer1'', req_factory_id = ''F001'',
       req_title = ''Q1 Compliance'', req_status = ''pending'', req_created_at = 21\<rparr>]"
  "request_items example_state =
     [\<lparr>it_id = ''I0000000A'', it_request_id = ''R00000001'', it_doc_type = ''Test Report'',
       it_status = ''pending'', it_evidence_id = None, it_version_id = None, fulfilled_at = None\<rparr>,
      \<lparr>it_id = ''I0000000B'', it_request_id = ''R00000001'', it_doc_type = ''Certificate'',
       it_status = ''pending'', it_evidence_id = None, it_version_id = None, fulfilled_at = None\<rparr>]"
  "evidence example_state =
     [\<lparr>ev_id = ''E0A1B2C3D'', ev_factory_id = ''F001'', ev_name = ''Safety Test Report'',
       ev_doc_type = ''Test Report'', ev_created_at = 31\<rparr>]"
  "evidence_versions example_state =
     [\<lparr>ver_id = ''V0000AAAA'', ver_evidence_id = ''E0A1B2C3D'', version_number = 1,
       ver_expiry = None, ver_notes = None, ver_created_at = 32\<rparr>,
      \<lparr>ver_id = ''V0000CCCC'', ver_evidence_id = ''E0A1B2C3D'', version_number = 2,
       ver_expiry = Some ''2026-06-30'', ver_notes = Some ''Updated report'',
       ver_created_at = 41\<rparr>]"
  by (simp_all add: example_state_def example_calls_def eval_defs)


lemma example_state_tokens:
  "auth_tokens example_state =
     [\<lparr>token = ''tokB1'', tok_user_id = ''buyer1'', tok_role = ''buyer'',
       tok_factory_id = None, tok_created_at = 1, expires_at = 86400000000\<rparr>,
      \<lparr>token = ''tokF1'', tok_user_id = ''factory_user1'', tok_role = ''factory'',
       tok_factory_id = Some ''F001'', tok_created_at = 11, expires_at = 86400000010\<rparr>]"
  by (simp add: example_state_def example_calls_def eval_defs)

lemma example_fulfill_A_tables:
  "requests (run init_db (example_calls @ [example_fulfill_A])) = requests example_state"
  "request_items (run init_db (example_calls @ [example_fulfill_A])) =
     [\<lparr>it_id = ''I0000000A'', it_request_id = ''R00000001'', it_doc_type = ''Test Report'',
       it_status = ''fulfilled'', it_evidence_id = Some ''E0A1B2C3D'',
       it_version_id = Some ''V0000AAAA'', fulfilled_at = Some 50\<rparr>,
      \<lparr>it_id = ''I0000000B'', it_request_id = ''R00000001'', it_doc_type = ''Certificate'',
       it_status = ''pending'', it_evidence_id = None, it_version_id = None, fulfilled_at = None\<rparr>]"
  "evidence (run init_db (example_calls @ [example_fulfill_A])) = evidence example_state"
  "evidence_versions (run init_db (example_calls @ [example_fulfill_A])) =
     evidence_versions example_state"
  by (simp_all add: run_append example_state_def [symmetric] example_fulfill_A_def
        require_role_def get_current_user_def startswith_def example_state_tokens
        fulfill_request_item_def get_db_def example_state_tables update_item_def
        count_items_def complete_request_def Let_def)

lemma status_inv_init: "status_inv init_db"
  by (simp add: status_inv_def init_db_def)

lemma all_items_fulfilled_update_item:
  assumes "\<forall>i \<in> set tbl. it_request_id i = k \<longrightarrow> it_status i = ''fulfilled''"
  shows "\<forall>i \<in> set (update_item tbl item_id evidence_id version_id now).
           it_request_id i = k \<longrightarrow> it_status i = ''fulfilled''"
  using assms by (auto dest!: update_item_row)

lemma status_inv_step:
  assumes "status_inv conn"
  shows "status_inv (step conn c)"
proof (rule step_invariant [where P = status_inv])
  show "status_inv conn" by fact
next
  fix request tok t0 t1 t2 conn' r
  assume "login conn request tok t0 t1 t2 = (conn', Inr r)"
  from login_tables(3,4) [OF this] assms show "status_inv conn'"
    by (simp add: status_inv_def all_items_fulfilled_def)
next
  fix ev u he hv t1 t2 t3 conn' r
  assume "create_evidence conn ev u he hv t1 t2 t3 = (conn', Inr r)"
  from create_evidence_tables(1,2) [OF this] assms show "status_inv conn'"
    by (simp add: status_inv_def all_items_fulfilled_def)
next
  fix evidence_id version u hv t1 t2 conn' r
  assume "add_evidence_version conn evidence_id version u hv t1 t2 = (conn', Inr r)"
  from add_evidence_version_tables(1,2) [OF this] assms show "status_inv conn'"
    by (simp add: status_inv_def all_items_fulfilled_def)
next
  fix request u hr rnd t1 t2 conn' r
  assume "create_request conn request u hr rnd t1 t2 = (conn', Inr r)"
  from create_request_tables(3) [OF this] obtain row new where new:
    "requests conn' = requests conn @ [row]" "req_id row \<notin> req_id ` set (requests conn)"
    "req_status row = ''pending''" "request_items conn' = request_items conn @ new"
    "\<forall>i \<in> set new. it_request_id i = req_id row \<and> it_status i = ''pending''"
    by blast
  show "status_inv conn'"
    unfolding status_inv_def all_items_fulfilled_def
  proof
    fix x assume "x \<in> set (requests conn')"
    then consider "x = row" | "x \<in> set (requests conn)" using new(1) by auto
    then show "req_status x = ''pending'' \<or>
        (req_status x = ''completed'' \<and>
         (\<forall>i \<in> set (request_items conn'). it_request_id i = req_id x \<longrightarrow> it_status i = ''fulfilled''))"
    proof cases
      case 1
      then show ?thesis using new(3) by simp
    next
      case 2
      then have "req_id x \<noteq> req_id row" using new(2) by (metis imageI)
      with 2 assms new(4,5) show ?thesis
        by (auto simp: status_inv_def all_items_fulfilled_def)
    qed
  qed
next
  fix request_id item_id fulfill u t1 t2 conn' r
  assume ok: "fulfill_request_item conn request_id item_id fulfill u t1 t2 = (conn', Inr r)"
  note items = fulfill_request_item_tables(3) [OF ok]
  note reqs = fulfill_request_item_tables(4) [OF ok]
  show "status_inv conn'"
    unfolding status_inv_def all_items_fulfilled_def
  proof
    fix x assume x: "x \<in> set (requests conn')"
    have old: "\<And>y. y \<in> set (requests conn) \<Longrightarrow> req_status y = ''completed'' \<Longrightarrow>
            (\<forall>i \<in> set (request_items conn'). it_request_id i = req_id y \<longrightarrow> it_status i = ''fulfilled'')"
      using assms unfolding items status_inv_def all_items_fulfilled_def
      by (intro all_items_fulfilled_update_item) auto
    have old_status: "\<And>y. y \<in> set (requests conn) \<Longrightarrow>
            req_status y = ''pending'' \<or> req_status y = ''completed''"
      using assms unfolding status_inv_def by auto
    show "req_status x = ''pending'' \<or>
        (req_status x = ''completed'' \<and>
         (\<forall>i \<in> set (request_items conn'). it_request_id i = req_id x \<longrightarrow> it_status i = ''fulfilled''))"
    proof (cases "items_complete (request_items conn') request_id")
      case True
      with x reqs have "x \<in> set (complete_request (requests conn) request_id)" by simp
      from complete_request_row [OF this] obtain y where y: "y \<in> set (requests conn)"
        "req_id x = req_id y"
        "if req_id y = request_id then req_status x = ''completed'' else x = y"
        by blast
      show ?thesis
      proof (cases "req_id y = request_id")
        case same: True
        with y True show ?thesis by (simp add: items_complete_iff)
      next
        case False
        with y have "x = y" by simp
        with y(1) old old_status show ?thesis by blast
      qed
    next
      case False
      with x reqs have "x \<in> set (requests conn)" by simp
      with old old_status show ?thesis by blast
    qed
  qed
qed

lemma status_inv_run: "status_inv (run init_db calls)"
  by (rule run_invariant [where P = status_inv]) (simp_all add: status_inv_init status_inv_step)

lemma request_completed_step:
  assumes "request_status conn k = Some ''completed''"
  shows "request_status (step conn c) k = Some ''completed''"
proof (rule step_invariant [where P = "\<lambda>conn. request_status conn k = Some ''completed''"])
  show "request_status conn k = Some ''completed''" by fact
next
  fix request tok t0 t1 t2 conn' r
  assume "login conn request tok t0 t1 t2 = (conn', Inr r)"
  from login_tables(3) [OF this] assms show "request_status conn' k = Some ''completed''"
    by (simp add: request_status_def)
next
  fix ev u he hv t1 t2 t3 conn' r
  assume "create_evidence conn ev u he hv t1 t2 t3 = (conn', Inr r)"
  from create_evidence_tables(1) [OF this] assms show "request_status conn' k = Some ''completed''"
    by (simp add: request_status_def)
next
  fix evidence_id version u hv t1 t2 conn' r
  assume "add_evidence_version conn evidence_id version u hv t1 t2 = (conn', Inr r)"
  from add_evidence_version_tables(1) [OF this] assms show "request_status conn' k = Some ''completed''"
    by (simp add: request_status_def)
next
  fix request u hr rnd t1 t2 conn' r
  assume "create_request conn request u hr rnd t1 t2 = (conn', Inr r)"
  from create_request_tables(3) [OF this] obtain row
    where "requests conn' = requests conn @ [row]" by blast
  with assms show "request_status conn' k = Some ''completed''"
    by (auto simp: request_status_def find_append_Some)
next
  fix request_id item_id fulfill u t1 t2 conn' r
  assume "fulfill_request_item conn request_id item_id fulfill u t1 t2 = (conn', Inr r)"
  note reqs = fulfill_request_item_tables(4) [OF this]
  from assms obtain z where z: "find (\<lambda>r. req_id r = k) (requests conn) = Some z"
    "req_status z = ''completed''"
    by (auto simp: request_status_def)
  show "request_status conn' k = Some ''completed''"
  proof (cases "items_complete (request_items conn') request_id")
    case True
    with reqs z show ?thesis
      by (simp add: request_status_def find_complete_request)
  next
    case False
    with reqs assms show ?thesis by (simp add: request_status_def)
  qed
qed

lemma request_completed_run:
  "request_status conn k = Some ''completed'' \<Longrightarrow> request_status (run conn calls) k = Some ''completed''"
  by (rule run_invariant [where P = "\<lambda>conn. request_status conn k = Some ''completed''"])
     (simp_all add: request_completed_step)

lemma insert_items_distinct:
  "insert_items request_id rnd k items tbl item_ids = Inr (tbl', item_ids') \<Longrightarrow>
     distinct (map it_id tbl) \<Longrightarrow> distinct (map it_id tbl')"
proof (induction items arbitrary: k tbl item_ids)
  case Nil
  then show ?case by simp
next
  case (Cons item items)
  let ?row = "\<lparr>it_id = generate_id ''I'' (rnd k), it_request_id = request_id,
                it_doc_type = docType item, it_status = ''pending'', it_evidence_id = None,
                it_version_id = None, fulfilled_at = None\<rparr>"
  from Cons.prems(1)
  have fresh: "generate_id ''I'' (rnd k) \<notin> it_id ` set tbl"
    and rest: "insert_items request_id rnd (Suc k) items (tbl @ [?row])
                (item_ids @ [generate_id ''I'' (rnd k)]) = Inr (tbl', item_ids')"
    by (simp_all add: Let_def split: if_splits)
  from fresh Cons.prems(2) have "distinct (map it_id (tbl @ [?row]))" by simp
  with Cons.IH [OF rest] show ?case .
qed

lemma create_request_items_distinct:
  assumes "create_request conn request u hr rnd t1 t2 = (conn', Inr r)"
      and "distinct (map it_id (request_items conn))"
  shows "distinct (map it_id (request_items conn'))"
proof (cases "insert_items (generate_id ''R'' hr) rnd 0 (rc_items request) (request_items conn) []")
  case (Inl e)
  with assms(1) show ?thesis
    by (simp add: create_request_def get_db_def Let_def split: if_splits)
next
  case (Inr p)
  obtain tbl ids where p: "p = (tbl, ids)" by (cases p)
  from insert_items_distinct [OF Inr [unfolded p] assms(2)] have "distinct (map it_id tbl)" .
  moreover from assms(1) Inr p have "request_items conn' = tbl"
    by (auto simp: create_request_def get_db_def Let_def split: if_splits)
  ultimately show ?thesis by simp
qed

lemma update_item_ids:
  "map it_id (update_item tbl item_id evidence_id version_id now) = map it_id tbl"
  by (induction tbl) (simp_all add: update_item_def)

lemma filter_map_fixed:
  assumes "\<And>x. x \<in> set xs \<Longrightarrow> P (f x) = P x"
      and "\<And>x. x \<in> set xs \<Longrightarrow> P x \<Longrightarrow> f x = x"
  shows "filter P (map f xs) = filter P xs"
  using assms by (induction xs) auto

lemma update_item_other_request:
  assumes "distinct (map it_id tbl)"
      and "i0 \<in> set tbl" and "it_id i0 = item_id" and "it_request_id i0 \<noteq> k"
  shows "filter (\<lambda>i. it_request_id i = k) (update_item tbl item_id evidence_id version_id now)
           = filter (\<lambda>i. it_request_id i = k) tbl"
  unfolding update_item_def
proof (rule filter_map_fixed)
  fix x assume "x \<in> set tbl"
  show "(it_request_id (if it_id x = item_id then
            x\<lparr>it_status := ''fulfilled'', it_evidence_id := Some evidence_id,
              it_version_id := Some version_id, fulfilled_at := Some now\<rparr> else x) = k)
          = (it_request_id x = k)"
    by simp
next
  fix x assume x: "x \<in> set tbl" "it_request_id x = k"
  from assms(1) have "inj_on it_id (set tbl)" by (simp add: distinct_map)
  with x(1) assms(2) have "it_id x = it_id i0 \<Longrightarrow> x = i0" by (simp add: inj_on_def)
  with x(2) assms(3,4) have "it_id x \<noteq> item_id" by auto
  then show "(if it_id x = item_id then
            x\<lparr>it_status := ''fulfilled'', it_evidence_id := Some evidence_id,
              it_version_id := Some version_id, fulfilled_at := Some now\<rparr> else x) = x"
    by simp
qed

lemma status_condition_filter:
  assumes "filter (\<lambda>i. it_request_id i = k) (request_items a)
             = filter (\<lambda>i. it_request_id i = k) (request_items b)"
  shows "(has_items a k \<and> all_items_fulfilled a k) = (has_items b k \<and> all_items_fulfilled b k)"
proof -
  have "set (filter (\<lambda>i. it_request_id i = k) (request_items a))
          = set (filter (\<lambda>i. it_request_id i = k) (request_items b))"
    using assms by simp
  then have "{i \<in> set (request_items a). it_request_id i = k}
               = {i \<in> set (request_items b). it_request_id i = k}"
    by simp
  then have "\<And>i. (i \<in> set (request_items a) \<and> it_request_id i = k)
                  = (i \<in> set (request_items b) \<and> it_request_id i = k)"
    by blast
  then show ?thesis
    unfolding has_items_def all_items_fulfilled_def by blast
qed

lemma requests_inv_init: "requests_inv init_db"
  by (simp add: requests_inv_def init_db_def)

lemma requests_inv_unchanged:
  assumes "requests_inv conn"
      and "requests conn' = requests conn" and "request_items conn' = request_items conn"
  shows "requests_inv conn'"
  using assms by (simp add: requests_inv_def has_items_def all_items_fulfilled_def)

lemma requests_inv_create_request:
  assumes inv: "requests_inv conn"
      and ok: "create_request conn request u hr rnd t1 t2 = (conn', Inr r)"
  shows "requests_inv conn'"
proof -
  from create_request_tables(3) [OF ok] obtain row new where new:
    "requests conn' = requests conn @ [row]" "req_id row \<notin> req_id ` set (requests conn)"
    "req_status row = ''pending''" "request_items conn' = request_items conn @ new"
    "\<forall>i \<in> set new. it_request_id i = req_id row \<and> it_status i = ''pending''"
    by blast
  from inv have refs: "\<forall>i \<in> set (request_items conn). it_request_id i \<in> req_id ` set (requests conn)"
    by (simp add: requests_inv_def)
  have old_items: "\<forall>i \<in> set (request_items conn). it_request_id i \<noteq> req_id row"
  proof
    fix i assume "i \<in> set (request_items conn)"
    with refs have "it_request_id i \<in> req_id ` set (requests conn)" by blast
    with new(2) show "it_request_id i \<noteq> req_id row" by auto
  qed
  from inv have "distinct (map it_id (request_items conn))"
    by (simp add: requests_inv_def)
  from create_request_items_distinct [OF ok this]
  have "distinct (map it_id (request_items conn'))" .
  moreover have "\<forall>i \<in> set (request_items conn'). it_request_id i \<in> req_id ` set (requests conn')"
  proof
    fix i assume "i \<in> set (request_items conn')"
    then consider "i \<in> set (request_items conn)" | "i \<in> set new" using new(4) by auto
    then show "it_request_id i \<in> req_id ` set (requests conn')"
    proof cases
      case 1
      with refs have "it_request_id i \<in> req_id ` set (requests conn)" by blast
      then show ?thesis by (simp add: new(1))
    next
      case 2
      with new(5) have "it_request_id i = req_id row" by blast
      then show ?thesis by (simp add: new(1))
    qed
  qed
  moreover have "\<forall>x \<in> set (requests conn').
            req_status x =
              (if has_items conn' (req_id x) \<and> all_items_fulfilled conn' (req_id x)
               then ''completed'' else ''pending'')"
  proof
    fix x assume "x \<in> set (requests conn')"
    then consider "x = row" | "x \<in> set (requests conn)" using new(1) by auto
    then show "req_status x =
              (if has_items conn' (req_id x) \<and> all_items_fulfilled conn' (req_id x)
               then ''completed'' else ''pending'')"
    proof cases
      case 1
      have "\<not> (has_items conn' (req_id row) \<and> all_items_fulfilled conn' (req_id row))"
        using old_items new(4,5) by (auto simp: has_items_def all_items_fulfilled_def)
      with 1 new(3) show ?thesis by simp
    next
      case 2
      then have "req_id x \<in> req_id ` set (requests conn)" by (rule imageI)
      with new(2) have other: "req_id x \<noteq> req_id row" by auto
      have "filter (\<lambda>i. it_request_id i = req_id x) (request_items conn')
              = filter (\<lambda>i. it_request_id i = req_id x) (request_items conn)"
        using new(4,5) other by (simp add: filter_empty_conv)
      from status_condition_filter [OF this] 2 inv show ?thesis
        by (simp add: requests_inv_def)
    qed
  qed
  ultimately show ?thesis by (simp add: requests_inv_def)
qed

lemma requests_inv_fulfill:
  assumes inv: "requests_inv conn"
      and ok: "fulfill_request_item conn request_id item_id fulfill u t1 t2 = (conn', Inr r)"
  shows "requests_inv conn'"
proof -
  note items = fulfill_request_item_tables(3) [OF ok]
  note reqs = fulfill_request_item_tables(4) [OF ok]
  from fulfill_request_item_tables(5) [OF ok] obtain i0 where i0:
    "i0 \<in> set (request_items conn)" "it_id i0 = item_id" "it_request_id i0 = request_id"
    by blast
  from inv have dist: "distinct (map it_id (request_items conn))"
    and refs: "\<forall>i \<in> set (request_items conn). it_request_id i \<in> req_id ` set (requests conn)"
    and rows: "\<And>y. y \<in> set (requests conn) \<Longrightarrow> req_status y =
              (if has_items conn (req_id y) \<and> all_items_fulfilled conn (req_id y)
               then ''completed'' else ''pending'')"
    by (simp_all add: requests_inv_def)
  have complete_iff: "items_complete (request_items conn') request_id
        \<longleftrightarrow> has_items conn' request_id \<and> all_items_fulfilled conn' request_id"
    by (simp add: items_complete_iff has_items_def all_items_fulfilled_def)
  have same_request_ids:
    "it_request_id ` set (request_items conn') = it_request_id ` set (request_items conn)"
    by (simp add: items update_item_request_ids)
  from i0(1) have "it_request_id i0 \<in> it_request_id ` set (request_items conn)" by (rule imageI)
  then have "request_id \<in> it_request_id ` set (request_items conn')"
    by (simp add: same_request_ids i0(3))
  then have has: "has_items conn' request_id"
    by (auto simp: has_items_def)
  have keeps: "all_items_fulfilled conn request_id \<Longrightarrow> all_items_fulfilled conn' request_id"
    unfolding all_items_fulfilled_def items by (rule all_items_fulfilled_update_item)
  have other: "\<And>k. k \<noteq> request_id \<Longrightarrow>
      (has_items conn' k \<and> all_items_fulfilled conn' k) = (has_items conn k \<and> all_items_fulfilled conn k)"
  proof -
    fix k assume "k \<noteq> request_id"
    with i0 have "it_request_id i0 \<noteq> k" by simp
    from update_item_other_request [OF dist i0(1,2) this]
    have "filter (\<lambda>i. it_request_id i = k) (request_items conn')
            = filter (\<lambda>i. it_request_id i = k) (request_items conn)"
      by (simp add: items)
    then show "(has_items conn' k \<and> all_items_fulfilled conn' k)
                 = (has_items conn k \<and> all_items_fulfilled conn k)"
      by (rule status_condition_filter)
  qed
  have "distinct (map it_id (request_items conn'))"
    using dist by (simp add: items update_item_ids)
  moreover have "\<forall>i \<in> set (request_items conn'). it_request_id i \<in> req_id ` set (requests conn')"
  proof
    fix i assume "i \<in> set (request_items conn')"
    then have "it_request_id i \<in> it_request_id ` set (request_items conn')" by (rule imageI)
    then have "it_request_id i \<in> it_request_id ` set (request_items conn)"
      by (simp add: same_request_ids)
    then obtain j where "j \<in> set (request_items conn)" "it_request_id i = it_request_id j"
      by auto
    with refs have "it_request_id i \<in> req_id ` set (requests conn)" by auto
    moreover have "req_id ` set (requests conn') = req_id ` set (requests conn)"
      using reqs by (simp add: complete_request_ids)
    ultimately show "it_request_id i \<in> req_id ` set (requests conn')" by simp
  qed
  moreover have "\<forall>x \<in> set (requests conn').
            req_status x =
              (if has_items conn' (req_id x) \<and> all_items_fulfilled conn' (req_id x)
               then ''completed'' else ''pending'')"
  proof
    fix x assume x: "x \<in> set (requests conn')"
    show "req_status x =
              (if has_items conn' (req_id x) \<and> all_items_fulfilled conn' (req_id x)
               then ''completed'' else ''pending'')"
    proof (cases "items_complete (request_items conn') request_id")
      case True
      with x reqs have "x \<in> set (complete_request (requests conn) request_id)" by simp
      from complete_request_row [OF this] obtain y where y: "y \<in> set (requests conn)"
        "req_id x = req_id y"
        "if req_id y = request_id then req_status x = ''completed'' else x = y"
        by blast
      show ?thesis
      proof (cases "req_id y = request_id")
        case same: True
        with y True complete_iff show ?thesis by simp
      next
        case False
        with y have "x = y" by simp
        with y(1) False rows [of y] other [of "req_id y"] show ?thesis by simp
      qed
    next
      case False
      with x reqs have x_old: "x \<in> set (requests conn)" by simp
      show ?thesis
      proof (cases "req_id x = request_id")
        case same: True
        from False complete_iff has have "\<not> all_items_fulfilled conn' request_id" by simp
        with keeps have "\<not> all_items_fulfilled conn request_id" by blast
        with rows [OF x_old] same have "req_status x = ''pending''" by simp
        with False complete_iff same show ?thesis by simp
      next
        case False
        with rows [OF x_old] other [of "req_id x"] show ?thesis by simp
      qed
    qed
  qed
  ultimately show ?thesis by (simp add: requests_inv_def)
qed

lemma requests_inv_step:
  assumes "requests_inv conn"
  shows "requests_inv (step conn c)"
proof (rule step_invariant [where P = requests_inv])
  show "requests_inv conn" by fact
next
  fix request tok t0 t1 t2 conn' r
  assume "login conn request tok t0 t1 t2 = (conn', Inr r)"
  from assms login_tables(3,4) [OF this] show "requests_inv conn'"
    by (rule requests_inv_unchanged)
next
  fix ev u he hv t1 t2 t3 conn' r
  assume "create_evidence conn ev u he hv t1 t2 t3 = (conn', Inr r)"
  from assms create_evidence_tables(1,2) [OF this] show "requests_inv conn'"
    by (rule requests_inv_unchanged)
next
  fix evidence_id version u hv t1 t2 conn' r
  assume "add_evidence_version conn evidence_id version u hv t1 t2 = (conn', Inr r)"
  from assms add_evidence_version_tables(1,2) [OF this] show "requests_inv conn'"
    by (rule requests_inv_unchanged)
next
  fix request u hr rnd t1 t2 conn' r
  assume "create_request conn request u hr rnd t1 t2 = (conn', Inr r)"
  with assms show "requests_inv conn'" by (rule requests_inv_create_request)
next
  fix request_id item_id fulfill u t1 t2 conn' r
  assume "fulfill_request_item conn request_id item_id fulfill u t1 t2 = (conn', Inr r)"
  with assms show "requests_inv conn'" by (rule requests_inv_fulfill)
qed

lemma requests_inv_run: "requests_inv (run init_db calls)"
  by (rule run_invariant [where P = requests_inv]) (simp_all add: requests_inv_init requests_inv_step)

lemma fulfill_target_status:
  assumes ok: "fulfill_request_item (run init_db calls) request_id item_id fulfill u t1 t2 = (conn', Inr r)"
  shows "request_status conn' request_id =
        Some (if all_items_fulfilled conn' request_id then ''completed'' else ''pending'')"
proof -
  let ?conn = "run init_db calls"
  note items = fulfill_request_item_tables(3) [OF ok]
  note reqs = fulfill_request_item_tables(4) [OF ok]
  from fulfill_request_item_tables(6) [OF ok]
  have "find (\<lambda>r. req_id r = request_id) (requests ?conn) \<noteq> None"
    by (auto simp: find_None_iff)
  then obtain row where row: "find (\<lambda>r. req_id r = request_id) (requests ?conn) = Some row"
    by blast
  then have row_in: "row \<in> set (requests ?conn)" "req_id row = request_id"
    by (auto dest: find_SomeD)
  from fulfill_request_item_tables(5) [OF ok]
  have "\<exists>i \<in> set (request_items conn'). it_request_id i = request_id"
    unfolding items using update_item_request_ids [of "request_items ?conn" item_id
        "fr_evidenceId fulfill" "fr_versionId fulfill" t1]
    by (metis image_iff)
  then have complete_iff:
    "items_complete (request_items conn') request_id \<longleftrightarrow> all_items_fulfilled conn' request_id"
    by (simp add: items_complete_iff all_items_fulfilled_def)
  show "request_status conn' request_id =
        Some (if all_items_fulfilled conn' request_id then ''completed'' else ''pending'')"
  proof (cases "all_items_fulfilled conn' request_id")
    case True
    with complete_iff reqs row row_in(2) show ?thesis
      by (simp add: request_status_def find_complete_request)
  next
    case False
    with complete_iff reqs have same: "requests conn' = requests ?conn" by simp
    have "\<not> all_items_fulfilled ?conn request_id"
    proof
      assume "all_items_fulfilled ?conn request_id"
      then have "all_items_fulfilled conn' request_id"
        unfolding all_items_fulfilled_def items by (rule all_items_fulfilled_update_item)
      with False show False by simp
    qed
    with status_inv_run [of calls] row_in have "req_status row = ''pending''"
      by (auto simp: status_inv_def)
    with False same row show ?thesis by (simp add: request_status_def)
  qed
qed

lemma example_empty_request_tables:
  "requests (run init_db (example_calls @ [example_empty_request])) =
     [\<lparr>req_id = ''R00000001'', req_buyer_id = ''buyer1'', req_factory_id = ''F001'',
       req_title = ''Q1 Compliance'', req_status = ''pending'', req_created_at = 21\<rparr>,
      \<lparr>req_id = ''R00000002'', req_buyer_id = ''buyer1'', req_factory_id = ''F001'',
       req_title = ''Nothing yet'', req_status = ''pending'', req_created_at = 45\<rparr>]"
  "request_items (run init_db (example_calls @ [example_empty_request])) =
     request_items example_state"
  "evidence (run init_db (example_calls @ [example_empty_request])) = evidence example_state"
  "evidence_versions (run init_db (example_calls @ [example_empty_request])) =
     evidence_versions example_state"
  by (simp_all add: run_append example_state_def [symmetric] example_empty_request_def
        require_role_def get_current_user_def startswith_def example_state_tokens
        create_request_def get_db_def example_state_tables generate_id_def Let_def)

lemma example_fulfill_A_after_empty_tables:
  "requests (run init_db (example_calls @ [example_empty_request, example_fulfill_A])) =
     requests (run init_db (example_calls @ [example_empty_request]))"
  "request_items (run init_db (example_calls @ [example_empty_request, example_fulfill_A])) =
     [\<lparr>it_id = ''I0000000A'', it_request_id = ''R00000001'', it_doc_type = ''Test Report'',
       it_status = ''fulfilled'', it_evidence_id = Some ''E0A1B2C3D'',
       it_version_id = Some ''V0000AAAA'', fulfilled_at = Some 50\<rparr>,
      \<lparr>it_id = ''I0000000B'', it_request_id = ''R00000001'', it_doc_type = ''Certificate'',
       it_status = ''pending'', it_evidence_id = None, it_version_id = None, fulfilled_at = None\<rparr>]"
  "evidence (run init_db (example_calls @ [example_empty_request, example_fulfill_A])) =
     evidence example_state"
  "evidence_versions (run init_db (example_calls @ [example_empty_request, example_fulfill_A])) =
     evidence_versions example_state"
proof -
  have split: "run init_db (example_calls @ [example_empty_request, example_fulfill_A])
                 = step (run init_db (example_calls @ [example_empty_request])) example_fulfill_A"
    by (simp add: run_def)
  have tokens: "auth_tokens (run init_db (example_calls @ [example_empty_request]))
                  = auth_tokens example_state"
    by (simp add: run_append example_state_def [symmetric] example_empty_request_def
          require_role_def get_current_user_def startswith_def example_state_tokens
          create_request_def get_db_def example_state_tables generate_id_def Let_def)
  note eval = example_fulfill_A_def
        require_role_def get_current_user_def startswith_def tokens example_state_tokens
        fulfill_request_item_def get_db_def example_empty_request_tables example_state_tables
        update_item_def count_items_def complete_request_def Let_def
  show "requests (run init_db (example_calls @ [example_empty_request, example_fulfill_A])) =
     requests (run init_db (example_calls @ [example_empty_request]))"
    unfolding split by (simp add: eval)
  show "request_items (run init_db (example_calls @ [example_empty_request, example_fulfill_A])) =
     [\<lparr>it_id = ''I0000000A'', it_request_id = ''R00000001'', it_doc_type = ''Test Report'',
       it_status = ''fulfilled'', it_evidence_id = Some ''E0A1B2C3D'',
       it_version_id = Some ''V0000AAAA'', fulfilled_at = Some 50\<rparr>,
      \<lparr>it_id = ''I0000000B'', it_request_id = ''R00000001'', it_doc_type = ''Certificate'',
       it_status = ''pending'', it_evidence_id = None, it_version_id = None, fulfilled_at = None\<rparr>]"
    unfolding split by (simp add: eval)
  show "evidence (run init_db (example_calls @ [example_empty_request, example_fulfill_A])) =
     evidence example_state"
    unfolding split by (simp add: eval)
  show "evidence_versions (run init_db (example_calls @ [example_empty_request, example_fulfill_A])) =
     evidence_versions example_state"
    unfolding split by (simp add: eval)
qed

text \<open>
  C2 (as amended). In every database that a sequence of calls reaches from the empty one,
  a successful \<open>fulfill_request_item\<close> leaves the stored status of the request it
  targets at completed when every item of that request is fulfilled and at pending
  otherwise; and it leaves every request row at completed exactly when the request has an
  item and all its items are fulfilled, and at pending otherwise, so that a request
  without items is pending. A request stored as completed stays completed under every
  later sequence of calls.
\<close>

theorem request_status_after_fulfill:
  "(fulfill_request_item (run init_db calls) request_id item_id fulfill u t1 t2 = (conn', Inr r) \<longrightarrow>
      request_status conn' request_id =
        Some (if all_items_fulfilled conn' request_id then ''completed'' else ''pending'')
      \<and> (\<forall>row \<in> set (requests conn').
            req_status row =
              (if has_items conn' (req_id row) \<and> all_items_fulfilled conn' (req_id row)
               then ''completed'' else ''pending'')))
   \<and> (request_status conn k = Some ''completed'' \<longrightarrow>
        request_status (run conn later) k = Some ''completed'')"
proof (intro conjI impI)
  assume "request_status conn k = Some ''completed''"
  then show "request_status (run conn later) k = Some ''completed''"
    by (rule request_completed_run)
next
  assume "fulfill_request_item (run init_db calls) request_id item_id fulfill u t1 t2 = (conn', Inr r)"
  then show "request_status conn' request_id =
        Some (if all_items_fulfilled conn' request_id then ''completed'' else ''pending'')"
    by (rule fulfill_target_status)
next
  assume "fulfill_request_item (run init_db calls) request_id item_id fulfill u t1 t2 = (conn', Inr r)"
  with requests_inv_run [of calls] have "requests_inv conn'"
    by (rule requests_inv_fulfill)
  then show "\<forall>row \<in> set (requests conn').
            req_status row =
              (if has_items conn' (req_id row) \<and> all_items_fulfilled conn' (req_id row)
               then ''completed'' else ''pending'')"
    by (simp add: requests_inv_def)
qed

theorem request_status_after_fulfill_witness:
  "request_status (fst (fulfill_request_item (run init_db example_calls)
       ''R00000001'' ''I0000000A''
       \<lparr>fr_evidenceId = ''E0A1B2C3D'', fr_versionId = ''V0000AAAA''\<rparr> factory_user1 50 51))
     ''R00000001'' = Some ''pending''
   \<and> request_status (fst (fulfill_request_item (run init_db (example_calls @ [example_fulfill_A]))
       ''R00000001'' ''I0000000B''
       \<lparr>fr_evidenceId = ''E0A1B2C3D'', fr_versionId = ''V0000CCCC''\<rparr> factory_user1 60 61))
     ''R00000001'' = Some ''completed''
   \<and> request_status (run (fst (fulfill_request_item (run init_db (example_calls @ [example_fulfill_A]))
       ''R00000001'' ''I0000000B''
       \<lparr>fr_evidenceId = ''E0A1B2C3D'', fr_versionId = ''V0000CCCC''\<rparr> factory_user1 60 61))
       [example_fulfill_A, Root])
     ''R00000001'' = Some ''completed''
   \<and> map (\<lambda>row. (req_id row, req_status row))
        (requests (fst (fulfill_request_item
           (run init_db (example_calls @ [example_empty_request, example_fulfill_A]))
           ''R00000001'' ''I0000000B''
           \<lparr>fr_evidenceId = ''E0A1B2C3D'', fr_versionId = ''V0000CCCC''\<rparr> factory_user1 60 61)))
     = [(''R00000001'', ''completed''), (''R00000002'', ''pending'')]"
proof -
  let ?fA = "\<lparr>fr_evidenceId = ''E0A1B2C3D'', fr_versionId = ''V0000AAAA''\<rparr>"
  let ?fB = "\<lparr>fr_evidenceId = ''E0A1B2C3D'', fr_versionId = ''V0000CCCC''\<rparr>"
  let ?r = "\<lparr>success = True, itemId = ''I0000000A'', ff_status = ''fulfilled''\<rparr>"
  let ?r' = "\<lparr>success = True, itemId = ''I0000000B'', ff_status = ''fulfilled''\<rparr>"
  let ?one = "fulfill_request_item (run init_db example_calls) ''R00000001'' ''I0000000A''
                ?fA factory_user1 50 51"
  let ?two = "fulfill_request_item (run init_db (example_calls @ [example_fulfill_A]))
                ''R00000001'' ''I0000000B'' ?fB factory_user1 60 61"
  note eval = fulfill_request_item_def get_db_def example_state_tables example_fulfill_A_tables
        factory_user1_def update_item_def count_items_def complete_request_def Let_def
  have one: "?one = (fst ?one, Inr ?r)"
    by (simp add: example_state_def [symmetric] eval)
  have one_items: "\<not> all_items_fulfilled (fst ?one) ''R00000001''"
    by (simp add: all_items_fulfilled_def example_state_def [symmetric] eval)
  have two: "?two = (fst ?two, Inr ?r')"
    by (simp add: eval)
  have two_items: "all_items_fulfilled (fst ?two) ''R00000001''"
    by (simp add: all_items_fulfilled_def eval)
  from request_status_after_fulfill [of example_calls "''R00000001''" "''I0000000A''" ?fA
         factory_user1 50 51 "fst ?one" ?r] one one_items
  have first: "request_status (fst ?one) ''R00000001'' = Some ''pending''"
    by simp
  from request_status_after_fulfill [of "example_calls @ [example_fulfill_A]" "''R00000001''"
         "''I0000000B''" ?fB factory_user1 60 61 "fst ?two" ?r'] two two_items
  have second: "request_status (fst ?two) ''R00000001'' = Some ''completed''"
    by simp
  from request_status_after_fulfill [of "[]" "''R00000001''" "''I0000000B''" ?fB
         factory_user1 60 61 "fst ?two" ?r' "fst ?two" "''R00000001''" "[example_fulfill_A, Root]"]
       second
  have third: "request_status (run (fst ?two) [example_fulfill_A, Root]) ''R00000001''
                 = Some ''completed''"
    by simp
  let ?all = "fulfill_request_item
                (run init_db (example_calls @ [example_empty_request, example_fulfill_A]))
                ''R00000001'' ''I0000000B'' ?fB factory_user1 60 61"
  note eval' = fulfill_request_item_def get_db_def example_fulfill_A_after_empty_tables
        example_empty_request_tables example_state_tables factory_user1_def update_item_def
        count_items_def complete_request_def Let_def
  have all: "?all = (fst ?all, Inr ?r')"
    by (simp add: eval')
  have all_requests: "map req_id (requests (fst ?all)) = [''R00000001'', ''R00000002'']"
    by (simp add: eval')
  have all_items: "map (\<lambda>i. (it_request_id i, it_status i)) (request_items (fst ?all))
                     = [(''R00000001'', ''fulfilled''), (''R00000001'', ''fulfilled'')]"
    by (simp add: eval')
  from request_status_after_fulfill [THEN conjunct1, THEN mp, OF all, THEN conjunct2]
  have rows: "\<forall>row \<in> set (requests (fst ?all)).
            req_status row =
              (if has_items (fst ?all) (req_id row) \<and> all_items_fulfilled (fst ?all) (req_id row)
               then ''completed'' else ''pending'')" .
  have fourth: "map (\<lambda>row. (req_id row, req_status row)) (requests (fst ?all))
                  = [(''R00000001'', ''completed''), (''R00000002'', ''pending'')]"
  proof -
    obtain a b where ab: "requests (fst ?all) = [a, b]" "req_id a = ''R00000001''"
      "req_id b = ''R00000002''"
      using all_requests by (auto simp: map_eq_Cons_conv)
    obtain i j where ij: "request_items (fst ?all) = [i, j]"
      "it_request_id i = ''R00000001''" "it_status i = ''fulfilled''"
      "it_request_id j = ''R00000001''" "it_status j = ''fulfilled''"
      using all_items by (auto simp: map_eq_Cons_conv)
    from rows ab ij have "req_status a = ''completed''" "req_status b = ''pending''"
      by (simp_all add: has_items_def all_items_fulfilled_def)
    with ab show ?thesis by simp
  qed
  from first second third fourth show ?thesis by simp
qed


text \<open>
  C2 as stated fails for a request without items: after a successful fulfilment of an
  item of R00000001, every item of the itemless R00000002 is fulfilled (it has none) and
  its stored status is pending.
\<close>

theorem itemless_request_pending_after_fulfill:
  "snd (fulfill_request_item (run init_db (example_calls @ [example_empty_request]))
          ''R00000001'' ''I0000000A''
          \<lparr>fr_evidenceId = ''E0A1B2C3D'', fr_versionId = ''V0000AAAA''\<rparr> factory_user1 50 51)
     = Inr \<lparr>success = True, itemId = ''I0000000A'', ff_status = ''fulfilled''\<rparr>
   \<and> all_items_fulfilled
        (fst (fulfill_request_item (run init_db (example_calls @ [example_empty_request]))
                ''R00000001'' ''I0000000A''
                \<lparr>fr_evidenceId = ''E0A1B2C3D'', fr_versionId = ''V0000AAAA''\<rparr> factory_user1 50 51))
        ''R00000002''
   \<and> request_status
        (fst (fulfill_request_item (run init_db (example_calls @ [example_empty_request]))
                ''R00000001'' ''I0000000A''
                \<lparr>fr_evidenceId = ''E0A1B2C3D'', fr_versionId = ''V0000AAAA''\<rparr> factory_user1 50 51))
        ''R00000002''
     = Some ''pending''"
  by (simp add: all_items_fulfilled_def request_status_def fulfill_request_item_def get_db_def
        example_empty_request_tables example_state_tables factory_user1_def update_item_def
        count_items_def complete_request_def Let_def)

section \<open>Version numbers\<close>

lemma sql_max_Max: "xs \<noteq> [] \<Longrightarrow> sql_max xs = Some (Max (set xs))"
proof (cases xs)
  case Nil
  assume "xs \<noteq> []"
  with Nil show ?thesis by simp
next
  case (Cons a list)
  have "Max (set (a # list)) = fold max list a" by (rule Max.set_eq_fold)
  with Cons show ?thesis by simp
qed

lemma or_zero_Some [simp]: "or_zero (Some v) = v"
  by simp

lemma next_version_number:
  "or_zero (sql_max xs) + 1 = (if xs = [] then 1 else Max (set xs) + 1)"
  by (simp add: sql_max_Max)

lemma Max_upto: "0 < n \<Longrightarrow> Max (set [1..int n]) = int n"
  by (intro Max_eqI) auto

lemma next_version_number_upto: "or_zero (sql_max [1..int n]) + 1 = int n + 1"
proof (cases n)
  case 0
  then show ?thesis by simp
next
  case (Suc m)
  then have "[1..int n] \<noteq> []" by (simp add: upto_rec2)
  moreover have "Max (set [1..int n]) = int n" using Suc by (intro Max_upto) simp
  ultimately show ?thesis by (simp add: next_version_number)
qed

lemma upto_snoc: "[1..int n] @ [int n + 1] = [1..int (Suc n)]"
proof -
  have "[1..int (Suc n)] = [1..int (Suc n) - 1] @ [int (Suc n)]"
    by (rule upto_rec2) simp
  then show ?thesis by (simp add: add.commute)
qed

lemma version_numbers_of_snoc:
  "version_numbers_of (tbl @ [v]) e =
     (if ver_evidence_id v = e then version_numbers_of tbl e @ [version_number v]
      else version_numbers_of tbl e)"
  by (simp add: version_numbers_of_def)

lemma version_numbers_of_empty:
  "e \<notin> ver_evidence_id ` set tbl \<Longrightarrow> version_numbers_of tbl e = []"
  by (auto simp: version_numbers_of_def filter_empty_conv)

lemma versions_inv_init: "versions_inv init_db"
  by (simp add: versions_inv_def init_db_def version_numbers_of_def)

lemma versions_inv_step:
  assumes "versions_inv conn"
  shows "versions_inv (step conn c)"
proof (rule step_invariant [where P = versions_inv])
  show "versions_inv conn" by fact
next
  fix request tok t0 t1 t2 conn' r
  assume "login conn request tok t0 t1 t2 = (conn', Inr r)"
  from login_tables(1,2) [OF this] assms show "versions_inv conn'"
    by (simp add: versions_inv_def)
next
  fix request u hr rnd t1 t2 conn' r
  assume "create_request conn request u hr rnd t1 t2 = (conn', Inr r)"
  from create_request_tables(1,2) [OF this] assms show "versions_inv conn'"
    by (simp add: versions_inv_def)
next
  fix request_id item_id fulfill u t1 t2 conn' r
  assume "fulfill_request_item conn request_id item_id fulfill u t1 t2 = (conn', Inr r)"
  from fulfill_request_item_tables(1,2) [OF this] assms show "versions_inv conn'"
    by (simp add: versions_inv_def)
next
  fix ev u he hv t1 t2 t3 conn' r
  assume "create_evidence conn ev u he hv t1 t2 t3 = (conn', Inr r)"
  from create_evidence_tables(3) [OF this] obtain e v where new:
    "evidence conn' = evidence conn @ [e]" "ev_id e \<notin> ev_id ` set (evidence conn)"
    "evidence_versions conn' = evidence_versions conn @ [v]"
    "ver_evidence_id v = ev_id e" "version_number v = 1"
    by blast
  from assms new(2) have "ev_id e \<notin> ver_evidence_id ` set (evidence_versions conn)"
    by (auto simp: versions_inv_def)
  then have none: "version_numbers_of (evidence_versions conn) (ev_id e) = []"
    by (rule version_numbers_of_empty)
  show "versions_inv conn'"
    unfolding versions_inv_def
  proof (intro conjI allI)
    show "\<forall>v \<in> set (evidence_versions conn'). ver_evidence_id v \<in> ev_id ` set (evidence conn')"
      using assms new by (auto simp: versions_inv_def)
  next
    fix e'
    show "version_numbers_of (evidence_versions conn') e' =
            [1..int (length (version_numbers_of (evidence_versions conn') e'))]"
    proof (cases "e' = ev_id e")
      case True
      with new none show ?thesis by (simp add: version_numbers_of_snoc)
    next
      case False
      with new assms show ?thesis by (simp add: version_numbers_of_snoc versions_inv_def)
    qed
  qed
next
  fix evidence_id version u hv t1 t2 conn' r
  assume ok: "add_evidence_version conn evidence_id version u hv t1 t2 = (conn', Inr r)"
  from add_evidence_version_tables(5) [OF ok] obtain v where new:
    "evidence_versions conn' = evidence_versions conn @ [v]"
    "ver_evidence_id v = evidence_id"
    "version_number v =
       or_zero (sql_max (version_numbers_of (evidence_versions conn) evidence_id)) + 1"
    by blast
  note ev = add_evidence_version_tables(3,4) [OF ok]
  let ?old = "version_numbers_of (evidence_versions conn) evidence_id"
  from assms have old: "?old = [1..int (length ?old)]"
    by (simp add: versions_inv_def)
  have "version_number v = or_zero (sql_max [1..int (length ?old)]) + 1"
    using new(3) old by simp
  then have number: "version_number v = int (length ?old) + 1"
    by (simp only: next_version_number_upto)
  show "versions_inv conn'"
    unfolding versions_inv_def
  proof (intro conjI allI)
    show "\<forall>v \<in> set (evidence_versions conn'). ver_evidence_id v \<in> ev_id ` set (evidence conn')"
      using assms new ev by (auto simp: versions_inv_def)
  next
    fix e'
    show "version_numbers_of (evidence_versions conn') e' =
            [1..int (length (version_numbers_of (evidence_versions conn') e'))]"
    proof (cases "e' = evidence_id")
      case True
      have snoc: "version_numbers_of (evidence_versions conn') e' = ?old @ [int (length ?old) + 1]"
        using True new(1,2) number by (simp add: version_numbers_of_snoc)
      then have len: "length (version_numbers_of (evidence_versions conn') e') = Suc (length ?old)"
        by simp
      note snoc
      also have "?old @ [int (length ?old) + 1] = [1..int (length ?old)] @ [int (length ?old) + 1]"
        using old by simp
      also have "\<dots> = [1..int (Suc (length ?old))]"
        by (rule upto_snoc)
      finally show ?thesis unfolding len .
    next
      case False
      with new assms show ?thesis by (simp add: version_numbers_of_snoc versions_inv_def)
    qed
  qed
qed

lemma versions_inv_run: "versions_inv (run init_db calls)"
  by (rule run_invariant [where P = versions_inv]) (simp_all add: versions_inv_init versions_inv_step)

text \<open>
  C3. In every database that a sequence of calls reaches from the empty one, the version
  numbers on record for an evidence id are exactly 1, 2, ..., N, with N the number of its
  versions. \<open>create_evidence\<close> gives the initial version the number 1;
  \<open>add_evidence_version\<close> gives the new version the largest number on record for the
  evidence plus 1 (1 when there is none); neither request body has a field for it.
\<close>

theorem version_numbers_contiguous:
  "version_numbers_of (evidence_versions (run init_db calls)) e =
     [1..int (length (version_numbers_of (evidence_versions (run init_db calls)) e))]
   \<and> (create_evidence conn ev u he hv t1 t2 t3 = (conn', Inr r) \<longrightarrow>
        (\<exists>v. evidence_versions conn' = evidence_versions conn @ [v]
            \<and> ver_id v = versionId r \<and> ver_evidence_id v = evidenceId r
            \<and> version_number v = 1))
   \<and> (add_evidence_version conn evidence_id version u hv t1 t2 = (conn'', Inr r') \<longrightarrow>
        (\<exists>v. evidence_versions conn'' = evidence_versions conn @ [v]
            \<and> ver_id v = versionId r' \<and> ver_evidence_id v = evidence_id
            \<and> version_number v =
                (if version_numbers_of (evidence_versions conn) evidence_id = [] then 1
                 else Max (set (version_numbers_of (evidence_versions conn) evidence_id)) + 1)))"
proof (intro conjI impI)
  from versions_inv_run [of calls]
  show "version_numbers_of (evidence_versions (run init_db calls)) e =
     [1..int (length (version_numbers_of (evidence_versions (run init_db calls)) e))]"
    by (simp add: versions_inv_def)
next
  assume "create_evidence conn ev u he hv t1 t2 t3 = (conn', Inr r)"
  from create_evidence_tables(3) [OF this]
  show "\<exists>v. evidence_versions conn' = evidence_versions conn @ [v]
            \<and> ver_id v = versionId r \<and> ver_evidence_id v = evidenceId r
            \<and> version_number v = 1"
    by auto
next
  assume "add_evidence_version conn evidence_id version u hv t1 t2 = (conn'', Inr r')"
  from add_evidence_version_tables(5) [OF this]
  show "\<exists>v. evidence_versions conn'' = evidence_versions conn @ [v]
            \<and> ver_id v = versionId r' \<and> ver_evidence_id v = evidence_id
            \<and> version_number v =
                (if version_numbers_of (evidence_versions conn) evidence_id = [] then 1
                 else Max (set (version_numbers_of (evidence_versions conn) evidence_id)) + 1)"
    by (simp only: next_version_number)
qed


theorem version_numbers_contiguous_witness:
  "version_numbers_of (evidence_versions (run init_db example_calls)) ''E0A1B2C3D'' = [1, 2]
   \<and> (\<exists>v. evidence_versions (fst (create_evidence example_state
              \<lparr>ec_name = ''Certificate'', ec_docType = ''ISO Certificate'', ec_expiry = None,
               ec_notes = Some ''Version 1''\<rparr> factory_user1 ''11223344'' ''0000BBBB'' 60 61 62))
            = evidence_versions example_state @ [v]
          \<and> ver_id v = ''V0000BBBB'' \<and> ver_evidence_id v = ''E11223344''
          \<and> version_number v = 1)
   \<and> (\<exists>v. evidence_versions (fst (add_evidence_version example_state ''E0A1B2C3D''
              \<lparr>vc_notes = Some ''Updated certificate'', vc_expiry = None\<rparr>
              factory_user1 ''0000DDDD'' 70 71))
            = evidence_versions example_state @ [v]
          \<and> ver_id v = ''V0000DDDD'' \<and> ver_evidence_id v = ''E0A1B2C3D''
          \<and> version_number v = 3)"
proof -
  let ?ev = "\<lparr>ec_name = ''Certificate'', ec_docType = ''ISO Certificate'', ec_expiry = None,
               ec_notes = Some ''Version 1''\<rparr>"
  let ?vc = "\<lparr>vc_notes = Some ''Updated certificate'', vc_expiry = None\<rparr>"
  let ?create = "create_evidence example_state ?ev factory_user1 ''11223344'' ''0000BBBB'' 60 61 62"
  let ?add = "add_evidence_version example_state ''E0A1B2C3D'' ?vc factory_user1 ''0000DDDD'' 70 71"
  have created: "?create = (fst ?create, Inr \<lparr>evidenceId = ''E11223344'', versionId = ''V0000BBBB''\<rparr>)"
    by (simp add: create_evidence_def get_db_def example_state_tables factory_user1_def
          generate_id_def Let_def)
  have added: "?add = (fst ?add, Inr \<lparr>evidenceId = ''E0A1B2C3D'', versionId = ''V0000DDDD''\<rparr>)"
    by (simp add: add_evidence_version_def get_db_def example_state_tables factory_user1_def
          generate_id_def Let_def)
  have numbers: "version_numbers_of (evidence_versions example_state) ''E0A1B2C3D'' = [1, 2]"
    by (simp add: version_numbers_of_def example_state_tables)
  note contiguous = version_numbers_contiguous
  from contiguous [THEN conjunct1, of example_calls "''E0A1B2C3D''"] numbers
  have first: "version_numbers_of (evidence_versions (run init_db example_calls)) ''E0A1B2C3D''
                 = [1, 2]"
    by (simp add: example_state_def [symmetric])
  from contiguous [THEN conjunct2, THEN conjunct1, THEN mp, OF created]
  have second: "\<exists>v. evidence_versions (fst ?create) = evidence_versions example_state @ [v]
          \<and> ver_id v = ''V0000BBBB'' \<and> ver_evidence_id v = ''E11223344''
          \<and> version_number v = 1"
    by simp
  from contiguous [THEN conjunct2, THEN conjunct2, THEN mp, OF added] numbers
  have third: "\<exists>v. evidence_versions (fst ?add) = evidence_versions example_state @ [v]
          \<and> ver_id v = ''V0000DDDD'' \<and> ver_evidence_id v = ''E0A1B2C3D''
          \<and> version_number v = 3"
    by simp
  from first second third show ?thesis by simp
qed


section \<open>Requests without items\<close>

lemma items_have_request_init: "items_have_request init_db"
  by (simp add: items_have_request_def init_db_def)

lemma items_have_request_step:
  assumes "items_have_request conn"
  shows "items_have_request (step conn c)"
proof (rule step_invariant [where P = items_have_request])
  show "items_have_request conn" by fact
next
  fix request tok t0 t1 t2 conn' r
  assume "login conn request tok t0 t1 t2 = (conn', Inr r)"
  from login_tables(3,4) [OF this] assms show "items_have_request conn'"
    by (simp add: items_have_request_def)
next
  fix ev u he hv t1 t2 t3 conn' r
  assume "create_evidence conn ev u he hv t1 t2 t3 = (conn', Inr r)"
  from create_evidence_tables(1,2) [OF this] assms show "items_have_request conn'"
    by (simp add: items_have_request_def)
next
  fix evidence_id version u hv t1 t2 conn' r
  assume "add_evidence_version conn evidence_id version u hv t1 t2 = (conn', Inr r)"
  from add_evidence_version_tables(1,2) [OF this] assms show "items_have_request conn'"
    by (simp add: items_have_request_def)
next
  fix request u hr rnd t1 t2 conn' r
  assume "create_request conn request u hr rnd t1 t2 = (conn', Inr r)"
  from create_request_tables(3) [OF this] obtain row new where
    "requests conn' = requests conn @ [row]" "request_items conn' = request_items conn @ new"
    "\<forall>i \<in> set new. it_request_id i = req_id row \<and> it_status i = ''pending''"
    by blast
  with assms show "items_have_request conn'"
    by (auto simp: items_have_request_def)
next
  fix request_id item_id fulfill u t1 t2 conn' r
  assume ok: "fulfill_request_item conn request_id item_id fulfill u t1 t2 = (conn', Inr r)"
  have "req_id ` set (requests conn') = req_id ` set (requests conn)"
    using fulfill_request_item_tables(4) [OF ok] by (simp add: complete_request_ids)
  moreover have "it_request_id ` set (request_items conn') = it_request_id ` set (request_items conn)"
    using fulfill_request_item_tables(3) [OF ok] by (simp add: update_item_request_ids)
  ultimately show "items_have_request conn'"
    using assms unfolding items_have_request_def by (metis imageI image_subset_iff subsetI)
qed

lemma items_have_request_run: "items_have_request (run init_db calls)"
  by (rule run_invariant [where P = items_have_request])
     (simp_all add: items_have_request_init items_have_request_step)

lemma request_status_in_ids:
  "request_status conn k = Some s \<Longrightarrow> k \<in> req_id ` set (requests conn)"
  by (auto simp: request_status_def dest: find_SomeD)

lemma pending_without_items_step:
  assumes "pending_without_items conn k"
  shows "pending_without_items (step conn c) k"
proof (rule step_invariant [where P = "\<lambda>conn. pending_without_items conn k"])
  show "pending_without_items conn k" by fact
next
  fix request tok t0 t1 t2 conn' r
  assume "login conn request tok t0 t1 t2 = (conn', Inr r)"
  from login_tables(3,4) [OF this] assms show "pending_without_items conn' k"
    by (simp add: pending_without_items_def request_status_def)
next
  fix ev u he hv t1 t2 t3 conn' r
  assume "create_evidence conn ev u he hv t1 t2 t3 = (conn', Inr r)"
  from create_evidence_tables(1,2) [OF this] assms show "pending_without_items conn' k"
    by (simp add: pending_without_items_def request_status_def)
next
  fix evidence_id version u hv t1 t2 conn' r
  assume "add_evidence_version conn evidence_id version u hv t1 t2 = (conn', Inr r)"
  from add_evidence_version_tables(1,2) [OF this] assms show "pending_without_items conn' k"
    by (simp add: pending_without_items_def request_status_def)
next
  fix request u hr rnd t1 t2 conn' r
  assume "create_request conn request u hr rnd t1 t2 = (conn', Inr r)"
  from create_request_tables(3) [OF this] obtain row new where new:
    "requests conn' = requests conn @ [row]" "req_id row \<notin> req_id ` set (requests conn)"
    "request_items conn' = request_items conn @ new"
    "\<forall>i \<in> set new. it_request_id i = req_id row \<and> it_status i = ''pending''"
    by blast
  from assms have "k \<in> req_id ` set (requests conn)"
    by (auto simp: pending_without_items_def dest: request_status_in_ids)
  with new(2) have "req_id row \<noteq> k" by auto
  with assms new show "pending_without_items conn' k"
    by (auto simp: pending_without_items_def request_status_def find_append_Some)
next
  fix request_id item_id fulfill u t1 t2 conn' r
  assume ok: "fulfill_request_item conn request_id item_id fulfill u t1 t2 = (conn', Inr r)"
  from fulfill_request_item_tables(5) [OF ok] assms have other: "request_id \<noteq> k"
    by (auto simp: pending_without_items_def)
  have items: "it_request_id ` set (request_items conn') = it_request_id ` set (request_items conn)"
    using fulfill_request_item_tables(3) [OF ok] by (simp add: update_item_request_ids)
  from assms obtain z where z: "find (\<lambda>r. req_id r = k) (requests conn) = Some z"
    "req_status z = ''pending''"
    by (auto simp: pending_without_items_def request_status_def)
  then have "req_id z = k" by (auto dest: find_SomeD)
  with z other fulfill_request_item_tables(4) [OF ok]
  have "request_status conn' k = Some ''pending''"
    by (auto simp: request_status_def find_complete_request)
  with items assms show "pending_without_items conn' k"
    by (simp add: pending_without_items_def)
qed

lemma pending_without_items_run:
  "pending_without_items conn k \<Longrightarrow> pending_without_items (run conn calls) k"
  by (rule run_invariant [where P = "\<lambda>conn. pending_without_items conn k"])
     (simp_all add: pending_without_items_step)

lemma fulfill_needs_item:
  assumes "k \<notin> it_request_id ` set (request_items conn)"
  shows "fulfill_request_item conn k item_id fulfill u t1 t2 \<in>
           {(conn, Inl (HTTPException 404 ''Request not found'')),
            (conn, Inl (HTTPException 403 ''Cannot fulfill other factory's requests'')),
            (conn, Inl (HTTPException 404 ''Request item not found''))}"
proof -
  from assms
  have "find (\<lambda>i. it_id i = item_id \<and> it_request_id i = k) (request_items conn) = None"
    by (auto simp: find_None_iff)
  then show ?thesis
    by (simp add: fulfill_request_item_def get_db_def split: option.splits)
qed

text \<open>
  C9. \<open>create_request\<close> with an empty item list raises no validation error: unless
  the generated request id is already taken (the insert then fails on the primary key,
  as for any item list), it succeeds and returns status pending and no item ids. In a
  database reached from the empty one, the new request is then stored as pending with no
  item, and stays so under every later sequence of calls; every
  \<open>fulfill_request_item\<close> on it raises, at the item check at the latest.
\<close>

theorem create_request_without_items:
  assumes "rc_items request = []"
  shows "snd (create_request conn request u hr rnd t1 t2) =
           (if generate_id ''R'' hr \<in> req_id ` set (requests conn)
            then Inl (IntegrityError ''requests.id'')
            else Inr \<lparr>requestId = generate_id ''R'' hr, rc_status = ''pending'', itemIds = []\<rparr>)
       \<and> (create_request (run init_db calls) request u hr rnd t1 t2 = (conn', Inr r) \<longrightarrow>
            request_items conn' = request_items (run init_db calls)
          \<and> pending_without_items (run conn' later) (requestId r)
          \<and> fulfill_request_item (run conn' later) (requestId r) item_id fulfill u' t3 t4 \<in>
               {(run conn' later, Inl (HTTPException 404 ''Request not found'')),
                (run conn' later, Inl (HTTPException 403 ''Cannot fulfill other factory's requests'')),
                (run conn' later, Inl (HTTPException 404 ''Request item not found''))})"
proof (intro conjI impI)
  from assms
  show "snd (create_request conn request u hr rnd t1 t2) =
           (if generate_id ''R'' hr \<in> req_id ` set (requests conn)
            then Inl (IntegrityError ''requests.id'')
            else Inr \<lparr>requestId = generate_id ''R'' hr, rc_status = ''pending'', itemIds = []\<rparr>)"
    by (simp add: create_request_def get_db_def Let_def)
next
  let ?conn = "run init_db calls"
  assume ok: "create_request ?conn request u hr rnd t1 t2 = (conn', Inr r)"
  from create_request_tables(3) [OF ok] assms obtain row where new:
    "requests conn' = requests ?conn @ [row]" "req_id row \<notin> req_id ` set (requests ?conn)"
    "req_id row = requestId r" "req_status row = ''pending''"
    "request_items conn' = request_items ?conn"
    by auto
  show same: "request_items conn' = request_items ?conn" by fact
  have "find (\<lambda>x. req_id x = requestId r) (requests ?conn) = None"
    using new(2,3) by (force simp: find_None_iff image_iff)
  then have status: "request_status conn' (requestId r) = Some ''pending''"
    using new(1,3,4) by (simp add: request_status_def find_append_None)
  from items_have_request_run [of calls] new(2,3)
  have "requestId r \<notin> it_request_id ` set (request_items ?conn)"
    by (auto simp: items_have_request_def)
  with status same have "pending_without_items conn' (requestId r)"
    by (simp add: pending_without_items_def)
  then show forever: "pending_without_items (run conn' later) (requestId r)"
    by (rule pending_without_items_run)
  then have "requestId r \<notin> it_request_id ` set (request_items (run conn' later))"
    by (simp add: pending_without_items_def)
  then show "fulfill_request_item (run conn' later) (requestId r) item_id fulfill u' t3 t4 \<in>
               {(run conn' later, Inl (HTTPException 404 ''Request not found'')),
                (run conn' later, Inl (HTTPException 403 ''Cannot fulfill other factory's requests'')),
                (run conn' later, Inl (HTTPException 404 ''Request item not found''))}"
    by (rule fulfill_needs_item)
qed


theorem create_request_without_items_witness:
  "snd (create_request example_state
          \<lparr>rc_factoryId = ''F001'', rc_title = ''Nothing yet'', rc_items = []\<rparr>
          buyer1 ''00000002'' (\<lambda>k. ''0000000D'') 80 81)
     = Inr \<lparr>requestId = ''R00000002'', rc_status = ''pending'', itemIds = []\<rparr>
   \<and> pending_without_items
        (run (fst (create_request example_state
                \<lparr>rc_factoryId = ''F001'', rc_title = ''Nothing yet'', rc_items = []\<rparr>
                buyer1 ''00000002'' (\<lambda>k. ''0000000D'') 80 81))
           [example_fulfill_A, Root])
        ''R00000002''
   \<and> isl (snd (fulfill_request_item
        (run (fst (create_request example_state
                \<lparr>rc_factoryId = ''F001'', rc_title = ''Nothing yet'', rc_items = []\<rparr>
                buyer1 ''00000002'' (\<lambda>k. ''0000000D'') 80 81))
           [example_fulfill_A, Root])
        ''R00000002'' ''I0000000A''
        \<lparr>fr_evidenceId = ''E0A1B2C3D'', fr_versionId = ''V0000AAAA''\<rparr> factory_user1 90 91))"
proof -
  let ?request = "\<lparr>rc_factoryId = ''F001'', rc_title = ''Nothing yet'', rc_items = []\<rparr>"
  let ?call = "create_request example_state ?request buyer1 ''00000002'' (\<lambda>k. ''0000000D'') 80 81"
  let ?r = "\<lparr>requestId = ''R00000002'', rc_status = ''pending'', itemIds = []\<rparr>"
  have empty: "rc_items ?request = []" by simp
  note empty_request = create_request_without_items [OF empty]
  from empty_request [THEN conjunct1, of example_state buyer1 "''00000002''" "\<lambda>k. ''0000000D''" 80 81]
  have created: "snd ?call = Inr ?r"
    by (simp add: example_state_tables generate_id_def)
  then have "?call = (fst ?call, Inr ?r)"
    by (metis prod.collapse)
  then have ran: "create_request (run init_db example_calls) ?request buyer1 ''00000002''
                    (\<lambda>k. ''0000000D'') 80 81 = (fst ?call, Inr ?r)"
    by (simp add: example_state_def)
  from empty_request [THEN conjunct2, THEN mp, OF ran,
         of "[example_fulfill_A, Root]" "''I0000000A''"
            "\<lparr>fr_evidenceId = ''E0A1B2C3D'', fr_versionId = ''V0000AAAA''\<rparr>" factory_user1 90 91]
  have "pending_without_items (run (fst ?call) [example_fulfill_A, Root]) ''R00000002''"
    and "isl (snd (fulfill_request_item (run (fst ?call) [example_fulfill_A, Root])
           ''R00000002'' ''I0000000A''
           \<lparr>fr_evidenceId = ''E0A1B2C3D'', fr_versionId = ''V0000AAAA''\<rparr> factory_user1 90 91))"
    by auto
  with created show ?thesis by simp
qed


section \<open>The audit trail\<close>

text \<open>
  C8 (as amended). Each of the five writing handlers either raises and leaves the
  database as it was, or succeeds and appends exactly one audit row, in the same
  transaction as its other writes. The row's object id is the id of the evidence, the
  version, the request or the item written; for \<open>login\<close> it is the constant ''N/A''
  (with object type Request), not the token of the session that was created. The
  metadata is as listed for each action.
\<close>

theorem audit_record_per_mutation:
  "(login conn request tok t0 t1 t2 = (conn1, res1) \<longrightarrow>
      (case res1 of
         Inl e \<Rightarrow> conn1 = conn
       | Inr r \<Rightarrow>
           audit_appended conn conn1 t2 (lq_userId request) (Role_value (lq_role request))
             ''LOGIN'' ''Request'' ''N/A''
             [(''userId'', JStr (lq_userId request)),
              (''role'', JStr (Role_value (lq_role request))),
              (''factoryId'', json_opt (lq_factoryId request))]
           \<and> map token (auth_tokens conn1) = map token (auth_tokens conn) @ [lp_token r]))
   \<and> (create_evidence conn ev u he hv t1 t2 t3 = (conn2, res2) \<longrightarrow>
      (case res2 of
         Inl e \<Rightarrow> conn2 = conn
       | Inr r \<Rightarrow>
           audit_appended conn conn2 t3 (userId u) (role u) ''CREATE_EVIDENCE'' ''Evidence''
             (evidenceId r)
             [(''factoryId'', json_opt (factoryId u)), (''name'', JStr (ec_name ev)),
              (''docType'', JStr (ec_docType ev)), (''versionId'', JStr (versionId r))]
           \<and> map ev_id (evidence conn2) = map ev_id (evidence conn) @ [evidenceId r]))
   \<and> (add_evidence_version conn evidence_id version u hv t1 t2 = (conn3, res3) \<longrightarrow>
      (case res3 of
         Inl e \<Rightarrow> conn3 = conn
       | Inr r \<Rightarrow>
           (\<exists>v. evidence_versions conn3 = evidence_versions conn @ [v]
              \<and> ver_id v = versionId r
              \<and> audit_appended conn conn3 t2 (userId u) (role u) ''ADD_VERSION'' ''Version''
                   (versionId r)
                   [(''factoryId'', json_opt (factoryId u)), (''evidenceId'', JStr evidence_id),
                    (''versionNumber'', JInt (version_number v))])))
   \<and> (create_request conn body u hr rnd t1 t2 = (conn4, res4) \<longrightarrow>
      (case res4 of
         Inl e \<Rightarrow> conn4 = conn
       | Inr r \<Rightarrow>
           audit_appended conn conn4 t2 (userId u) (role u) ''CREATE_REQUEST'' ''Request''
             (requestId r)
             [(''buyerId'', JStr (userId u)), (''factoryId'', JStr (rc_factoryId body)),
              (''title'', JStr (rc_title body)),
              (''itemCount'', JInt (int (length (rc_items body)))),
              (''items'', JList (map (\<lambda>item. JObj [(''docType'', JStr (docType item))])
                                    (rc_items body)))]
           \<and> map req_id (requests conn4) = map req_id (requests conn) @ [requestId r]))
   \<and> (fulfill_request_item conn request_id item_id fulfill u t1 t2 = (conn5, res5) \<longrightarrow>
      (case res5 of
         Inl e \<Rightarrow> conn5 = conn
       | Inr r \<Rightarrow>
           (\<exists>request_row item_row.
              find (\<lambda>r. req_id r = request_id) (requests conn) = Some request_row
              \<and> find (\<lambda>i. it_id i = item_id \<and> it_request_id i = request_id) (request_items conn)
                  = Some item_row
              \<and> audit_appended conn conn5 t2 (userId u) (role u) ''FULFILL_ITEM'' ''RequestItem''
                   item_id
                   [(''factoryId'', json_opt (factoryId u)),
                    (''buyerId'', JStr (req_buyer_id request_row)),
                    (''requestId'', JStr request_id),
                    (''docType'', JStr (it_doc_type item_row)),
                    (''evidenceId'', JStr (fr_evidenceId fulfill)),
                    (''versionId'', JStr (fr_versionId fulfill)),
                    (''previousStatus'', JStr (it_status item_row)),
                    (''newStatus'', JStr ''fulfilled'')])
           \<and> itemId r = item_id \<and> item_fulfilled conn5 item_id))"
proof (intro conjI impI)
  assume "login conn request tok t0 t1 t2 = (conn1, res1)"
  with login_cases [of conn request tok t0 t1 t2]
  show "case res1 of
         Inl e \<Rightarrow> conn1 = conn
       | Inr r \<Rightarrow>
           audit_appended conn conn1 t2 (lq_userId request) (Role_value (lq_role request))
             ''LOGIN'' ''Request'' ''N/A''
             [(''userId'', JStr (lq_userId request)),
              (''role'', JStr (Role_value (lq_role request))),
              (''factoryId'', json_opt (lq_factoryId request))]
           \<and> map token (auth_tokens conn1) = map token (auth_tokens conn) @ [lp_token r]"
    by (auto simp: audit_appended_def audit_log_log_audit)
next
  assume "create_evidence conn ev u he hv t1 t2 t3 = (conn2, res2)"
  with create_evidence_cases [of conn ev u he hv t1 t2 t3]
  show "case res2 of
         Inl e \<Rightarrow> conn2 = conn
       | Inr r \<Rightarrow>
           audit_appended conn conn2 t3 (userId u) (role u) ''CREATE_EVIDENCE'' ''Evidence''
             (evidenceId r)
             [(''factoryId'', json_opt (factoryId u)), (''name'', JStr (ec_name ev)),
              (''docType'', JStr (ec_docType ev)), (''versionId'', JStr (versionId r))]
           \<and> map ev_id (evidence conn2) = map ev_id (evidence conn) @ [evidenceId r]"
    by (auto simp: audit_appended_def audit_log_log_audit)
next
  assume "add_evidence_version conn evidence_id version u hv t1 t2 = (conn3, res3)"
  with add_evidence_version_cases [of conn evidence_id version u hv t1 t2]
  show "case res3 of
         Inl e \<Rightarrow> conn3 = conn
       | Inr r \<Rightarrow>
           (\<exists>v. evidence_versions conn3 = evidence_versions conn @ [v]
              \<and> ver_id v = versionId r
              \<and> audit_appended conn conn3 t2 (userId u) (role u) ''ADD_VERSION'' ''Version''
                   (versionId r)
                   [(''factoryId'', json_opt (factoryId u)), (''evidenceId'', JStr evidence_id),
                    (''versionNumber'', JInt (version_number v))])"
    by (auto simp: audit_appended_def audit_log_log_audit)
next
  assume "create_request conn body u hr rnd t1 t2 = (conn4, res4)"
  with create_request_cases [of conn body u hr rnd t1 t2]
  show "case res4 of
         Inl e \<Rightarrow> conn4 = conn
       | Inr r \<Rightarrow>
           audit_appended conn conn4 t2 (userId u) (role u) ''CREATE_REQUEST'' ''Request''
             (requestId r)
             [(''buyerId'', JStr (userId u)), (''factoryId'', JStr (rc_factoryId body)),
              (''title'', JStr (rc_title body)),
              (''itemCount'', JInt (int (length (rc_items body)))),
              (''items'', JList (map (\<lambda>item. JObj [(''docType'', JStr (docType item))])
                                    (rc_items body)))]
           \<and> map req_id (requests conn4) = map req_id (requests conn) @ [requestId r]"
    by (auto simp: audit_appended_def audit_log_log_audit)
next
  assume call: "fulfill_request_item conn request_id item_id fulfill u t1 t2 = (conn5, res5)"
  show "case res5 of
         Inl e \<Rightarrow> conn5 = conn
       | Inr r \<Rightarrow>
           (\<exists>request_row item_row.
              find (\<lambda>r. req_id r = request_id) (requests conn) = Some request_row
              \<and> find (\<lambda>i. it_id i = item_id \<and> it_request_id i = request_id) (request_items conn)
                  = Some item_row
              \<and> audit_appended conn conn5 t2 (userId u) (role u) ''FULFILL_ITEM'' ''RequestItem''
                   item_id
                   [(''factoryId'', json_opt (factoryId u)),
                    (''buyerId'', JStr (req_buyer_id request_row)),
                    (''requestId'', JStr request_id),
                    (''docType'', JStr (it_doc_type item_row)),
                    (''evidenceId'', JStr (fr_evidenceId fulfill)),
                    (''versionId'', JStr (fr_versionId fulfill)),
                    (''previousStatus'', JStr (it_status item_row)),
                    (''newStatus'', JStr ''fulfilled'')])
           \<and> itemId r = item_id \<and> item_fulfilled conn5 item_id"
  proof (cases res5)
    case (Inl e)
    with call fulfill_request_item_cases [of conn request_id item_id fulfill u t1 t2]
    show ?thesis by auto
  next
    case (Inr r)
    from fulfill_request_item_tables(5) [OF call [unfolded Inr]]
    have "find (\<lambda>i. it_id i = item_id) (request_items conn) \<noteq> None"
      by (auto simp: find_None_iff)
    then obtain y where y: "find (\<lambda>i. it_id i = item_id) (request_items conn) = Some y"
      by blast
    then have "it_id y = item_id" by (auto dest: find_SomeD)
    with y fulfill_request_item_tables(3) [OF call [unfolded Inr]]
    have marked: "item_fulfilled conn5 item_id"
      by (simp add: item_fulfilled_def find_update_item)
    from call Inr fulfill_request_item_cases [of conn request_id item_id fulfill u t1 t2]
    have "(\<exists>request_row item_row.
              find (\<lambda>r. req_id r = request_id) (requests conn) = Some request_row
              \<and> find (\<lambda>i. it_id i = item_id \<and> it_request_id i = request_id) (request_items conn)
                  = Some item_row
              \<and> audit_appended conn conn5 t2 (userId u) (role u) ''FULFILL_ITEM'' ''RequestItem''
                   item_id
                   [(''factoryId'', json_opt (factoryId u)),
                    (''buyerId'', JStr (req_buyer_id request_row)),
                    (''requestId'', JStr request_id),
                    (''docType'', JStr (it_doc_type item_row)),
                    (''evidenceId'', JStr (fr_evidenceId fulfill)),
                    (''versionId'', JStr (fr_versionId fulfill)),
                    (''previousStatus'', JStr (it_status item_row)),
                    (''newStatus'', JStr ''fulfilled'')])
           \<and> itemId r = item_id"
      by (auto simp: audit_appended_def audit_log_log_audit)
    with marked Inr show ?thesis by simp
  qed
qed


theorem audit_record_per_mutation_witness:
  "audit_appended example_state
     (fst (login example_state
        \<lparr>lq_userId = ''factory_user2'', lq_role = FACTORY, lq_factoryId = Some ''F002''\<rparr>
        ''tokF2'' 100 101 102))
     102 ''factory_user2'' ''factory'' ''LOGIN'' ''Request'' ''N/A''
     [(''userId'', JStr ''factory_user2''), (''role'', JStr ''factory''),
      (''factoryId'', JStr ''F002'')]
   \<and> audit_appended example_state
     (fst (create_evidence example_state
        \<lparr>ec_name = ''Certificate'', ec_docType = ''ISO Certificate'', ec_expiry = None,
         ec_notes = Some ''Version 1''\<rparr> factory_user1 ''11223344'' ''0000BBBB'' 60 61 62))
     62 ''factory_user1'' ''factory'' ''CREATE_EVIDENCE'' ''Evidence'' ''E11223344''
     [(''factoryId'', JStr ''F001''), (''name'', JStr ''Certificate''),
      (''docType'', JStr ''ISO Certificate''), (''versionId'', JStr ''V0000BBBB'')]
   \<and> audit_appended example_state
     (fst (add_evidence_version example_state ''E0A1B2C3D''
        \<lparr>vc_notes = Some ''Updated certificate'', vc_expiry = None\<rparr>
        factory_user1 ''0000DDDD'' 70 71))
     71 ''factory_user1'' ''factory'' ''ADD_VERSION'' ''Version'' ''V0000DDDD''
     [(''factoryId'', JStr ''F001''), (''evidenceId'', JStr ''E0A1B2C3D''),
      (''versionNumber'', JInt 3)]
   \<and> audit_appended example_state
     (fst (create_request example_state
        \<lparr>rc_factoryId = ''F001'', rc_title = ''Q2 Compliance'',
         rc_items = [\<lparr>docType = ''Certificate''\<rparr>]\<rparr>
        buyer1 ''00000002'' (\<lambda>k. ''0000000C'') 80 81))
     81 ''buyer1'' ''buyer'' ''CREATE_REQUEST'' ''Request'' ''R00000002''
     [(''buyerId'', JStr ''buyer1''), (''factoryId'', JStr ''F001''),
      (''title'', JStr ''Q2 Compliance''), (''itemCount'', JInt 1),
      (''items'', JList [JObj [(''docType'', JStr ''Certificate'')]])]
   \<and> audit_appended example_state
     (fst (fulfill_request_item example_state ''R00000001'' ''I0000000A''
        \<lparr>fr_evidenceId = ''E0A1B2C3D'', fr_versionId = ''V0000AAAA''\<rparr> factory_user1 50 51))
     51 ''factory_user1'' ''factory'' ''FULFILL_ITEM'' ''RequestItem'' ''I0000000A''
     [(''factoryId'', JStr ''F001''), (''buyerId'', JStr ''buyer1''),
      (''requestId'', JStr ''R00000001''), (''docType'', JStr ''Test Report''),
      (''evidenceId'', JStr ''E0A1B2C3D''), (''versionId'', JStr ''V0000AAAA''),
      (''previousStatus'', JStr ''pending''), (''newStatus'', JStr ''fulfilled'')]"
proof -
  let ?login = "login example_state
        \<lparr>lq_userId = ''factory_user2'', lq_role = FACTORY, lq_factoryId = Some ''F002''\<rparr>
        ''tokF2'' 100 101 102"
  let ?create = "create_evidence example_state
        \<lparr>ec_name = ''Certificate'', ec_docType = ''ISO Certificate'', ec_expiry = None,
         ec_notes = Some ''Version 1''\<rparr> factory_user1 ''11223344'' ''0000BBBB'' 60 61 62"
  let ?add = "add_evidence_version example_state ''E0A1B2C3D''
        \<lparr>vc_notes = Some ''Updated certificate'', vc_expiry = None\<rparr>
        factory_user1 ''0000DDDD'' 70 71"
  let ?request = "create_request example_state
        \<lparr>rc_factoryId = ''F001'', rc_title = ''Q2 Compliance'',
         rc_items = [\<lparr>docType = ''Certificate''\<rparr>]\<rparr>
        buyer1 ''00000002'' (\<lambda>k. ''0000000C'') 80 81"
  let ?fulfill = "fulfill_request_item example_state ''R00000001'' ''I0000000A''
        \<lparr>fr_evidenceId = ''E0A1B2C3D'', fr_versionId = ''V0000AAAA''\<rparr> factory_user1 50 51"
  let ?lq = "\<lparr>lq_userId = ''factory_user2'', lq_role = FACTORY, lq_factoryId = Some ''F002''\<rparr>"
  let ?ec = "\<lparr>ec_name = ''Certificate'', ec_docType = ''ISO Certificate'', ec_expiry = None,
         ec_notes = Some ''Version 1''\<rparr>"
  let ?vc = "\<lparr>vc_notes = Some ''Updated certificate'', vc_expiry = None\<rparr>"
  let ?rc = "\<lparr>rc_factoryId = ''F001'', rc_title = ''Q2 Compliance'',
         rc_items = [\<lparr>docType = ''Certificate''\<rparr>]\<rparr>"
  let ?fr = "\<lparr>fr_evidenceId = ''E0A1B2C3D'', fr_versionId = ''V0000AAAA''\<rparr>"
  note audit = audit_record_per_mutation
  have login_run: "?login = (fst ?login, snd ?login)" by simp
  have create_run: "?create = (fst ?create, snd ?create)" by simp
  have add_run: "?add = (fst ?add, snd ?add)" by simp
  have request_run: "?request = (fst ?request, snd ?request)" by simp
  have fulfill_run: "?fulfill = (fst ?fulfill, snd ?fulfill)" by simp
  note users = factory_user1_def buyer1_def
  have login_ok: "snd ?login = Inr \<lparr>lp_token = ''tokF2'', lp_userId = ''factory_user2'',
                                     lp_role = ''factory'', lp_factoryId = Some ''F002''\<rparr>"
    by (simp add: login_def get_db_def example_state_tokens Let_def)
  have create_ok: "snd ?create = Inr \<lparr>evidenceId = ''E11223344'', versionId = ''V0000BBBB''\<rparr>"
    by (simp add: create_evidence_def get_db_def example_state_tables users generate_id_def Let_def)
  have add_ok: "snd ?add = Inr \<lparr>evidenceId = ''E0A1B2C3D'', versionId = ''V0000DDDD''\<rparr>"
    by (simp add: add_evidence_version_def get_db_def example_state_tables users generate_id_def
          Let_def)
  have add_versions: "map version_number (evidence_versions (fst ?add)) = [1, 2, 3]"
    by (simp add: add_evidence_version_def get_db_def example_state_tables users generate_id_def
          Let_def)
  have request_ok: "snd ?request = Inr \<lparr>requestId = ''R00000002'', rc_status = ''pending'',
                                         itemIds = [''I0000000C'']\<rparr>"
    by (simp add: create_request_def get_db_def example_state_tables users generate_id_def
          Let_def)
  have fulfill_ok: "snd ?fulfill = Inr \<lparr>success = True, itemId = ''I0000000A'',
                                         ff_status = ''fulfilled''\<rparr>"
    by (simp add: fulfill_request_item_def get_db_def example_state_tables users Let_def)
  from audit [THEN conjunct1, THEN mp, OF login_run, unfolded login_ok]
  have one: "audit_appended example_state (fst ?login) 102 ''factory_user2'' ''factory''
      ''LOGIN'' ''Request'' ''N/A''
      [(''userId'', JStr ''factory_user2''), (''role'', JStr ''factory''),
       (''factoryId'', JStr ''F002'')]"
    by simp
  from audit [THEN conjunct2, THEN conjunct1, THEN mp, OF create_run, unfolded create_ok]
  have two: "audit_appended example_state (fst ?create) 62 ''factory_user1'' ''factory''
      ''CREATE_EVIDENCE'' ''Evidence'' ''E11223344''
      [(''factoryId'', JStr ''F001''), (''name'', JStr ''Certificate''),
       (''docType'', JStr ''ISO Certificate''), (''versionId'', JStr ''V0000BBBB'')]"
    by (simp add: users)
  from audit [THEN conjunct2, THEN conjunct2, THEN conjunct1, THEN mp, OF add_run, unfolded add_ok] add_versions
  have three: "audit_appended example_state (fst ?add) 71 ''factory_user1'' ''factory''
      ''ADD_VERSION'' ''Version'' ''V0000DDDD''
      [(''factoryId'', JStr ''F001''), (''evidenceId'', JStr ''E0A1B2C3D''),
       (''versionNumber'', JInt 3)]"
    by (auto simp: users example_state_tables)
  from audit [THEN conjunct2, THEN conjunct2, THEN conjunct2, THEN conjunct1, THEN mp, OF request_run, unfolded request_ok]
  have four: "audit_appended example_state (fst ?request) 81 ''buyer1'' ''buyer''
      ''CREATE_REQUEST'' ''Request'' ''R00000002''
      [(''buyerId'', JStr ''buyer1''), (''factoryId'', JStr ''F001''),
       (''title'', JStr ''Q2 Compliance''), (''itemCount'', JInt 1),
       (''items'', JList [JObj [(''docType'', JStr ''Certificate'')]])]"
    by (simp add: users)
  from audit [THEN conjunct2, THEN conjunct2, THEN conjunct2, THEN conjunct2, THEN mp, OF fulfill_run, unfolded fulfill_ok]
  have five: "audit_appended example_state (fst ?fulfill) 51 ''factory_user1'' ''factory''
      ''FULFILL_ITEM'' ''RequestItem'' ''I0000000A''
      [(''factoryId'', JStr ''F001''), (''buyerId'', JStr ''buyer1''),
       (''requestId'', JStr ''R00000001''), (''docType'', JStr ''Test Report''),
       (''evidenceId'', JStr ''E0A1B2C3D''), (''versionId'', JStr ''V0000AAAA''),
       (''previousStatus'', JStr ''pending''), (''newStatus'', JStr ''fulfilled'')]"
    by (auto simp: users example_state_tables)
  from one two three four five show ?thesis by simp
qed

text \<open>
  C8 as stated fails for \<open>login\<close>: the audit row of a login carries the object id
  ''N/A'', while the entity the login wrote is the session row keyed by the token.
\<close>

theorem login_audit_object_id:
  "snd (login init_db \<lparr>lq_userId = ''buyer1'', lq_role = BUYER, lq_factoryId = None\<rparr>
          ''Zx3kQ9vT1mN8bR5cW2yH7uJ4pL6sD0fGaEiOqUtYwXz'' 0 1 2)
     = Inr \<lparr>lp_token = ''Zx3kQ9vT1mN8bR5cW2yH7uJ4pL6sD0fGaEiOqUtYwXz'', lp_userId = ''buyer1'',
            lp_role = ''buyer'', lp_factoryId = None\<rparr>
   \<and> map token (auth_tokens (fst (login init_db
          \<lparr>lq_userId = ''buyer1'', lq_role = BUYER, lq_factoryId = None\<rparr>
          ''Zx3kQ9vT1mN8bR5cW2yH7uJ4pL6sD0fGaEiOqUtYwXz'' 0 1 2)))
     = [''Zx3kQ9vT1mN8bR5cW2yH7uJ4pL6sD0fGaEiOqUtYwXz'']
   \<and> map (\<lambda>a. (action a, object_type a, object_id a)) (audit_log (fst (login init_db
          \<lparr>lq_userId = ''buyer1'', lq_role = BUYER, lq_factoryId = None\<rparr>
          ''Zx3kQ9vT1mN8bR5cW2yH7uJ4pL6sD0fGaEiOqUtYwXz'' 0 1 2)))
     = [(''LOGIN'', ''Request'', ''N/A'')]"
  by (simp add: login_def get_db_def init_db_def log_audit_def Let_def)


end
